theory Spec2Isabelle
  imports Main
begin

section \<open>Python strings\<close>

text \<open>
  A Python \<open>str\<close> is a sequence of Unicode code points; it is modelled as a list of
  natural numbers, one per code point. \<open>py\<close> turns an ASCII literal into such a string.
\<close>

type_synonym pystr = "nat list"

definition py :: "string \<Rightarrow> pystr" where
  "py s = map of_char s"

text \<open>
  The code points for which \<open>str.isspace\<close> holds; \<open>str.strip()\<close> and \<open>str.split()\<close>
  without arguments use this set.
\<close>

definition is_space :: "nat \<Rightarrow> bool" where
  "is_space c =
     ((9 \<le> c \<and> c \<le> 13) \<or> (28 \<le> c \<and> c \<le> 32) \<or> c = 133 \<or> c = 160 \<or> c = 5760
      \<or> (8192 \<le> c \<and> c \<le> 8202) \<or> c = 8232 \<or> c = 8233 \<or> c = 8239 \<or> c = 8287
      \<or> c = 12288)"

definition is_nonspace :: "nat \<Rightarrow> bool" where
  "is_nonspace c = (\<not> is_space c)"

definition py_lstrip :: "pystr \<Rightarrow> pystr" where
  "py_lstrip s = dropWhile is_space s"

definition py_rstrip :: "pystr \<Rightarrow> pystr" where
  "py_rstrip s = rev (dropWhile is_space (rev s))"

text \<open>\<open>s.strip()\<close>\<close>

definition py_strip :: "pystr \<Rightarrow> pystr" where
  "py_strip s = py_rstrip (py_lstrip s)"

text \<open>\<open>s.startswith(p)\<close>\<close>

definition startswith :: "pystr \<Rightarrow> pystr \<Rightarrow> bool" where
  "startswith s p = (take (length p) s = p)"

text \<open>
  \<open>s.split()\<close>: skip a run of whitespace, stop at the end of the string, otherwise take
  the maximal run of other characters as the next token and go on behind it.
\<close>

function py_split :: "pystr \<Rightarrow> pystr list" where
  "py_split s =
     (let r = dropWhile is_space s
      in if r = [] then []
         else takeWhile is_nonspace r # py_split (dropWhile is_nonspace r))"
  by pat_completeness auto
termination
proof (relation "measure length")
  show "wf (measure length)" by simp
next
  fix s r :: pystr
  assume r: "r = dropWhile is_space s" and ne: "r \<noteq> []"
  from ne obtain c cs where rc: "r = c # cs" by (cases r) auto
  have "\<not> is_space c"
    using r rc by (metis hd_dropWhile list.sel(1) ne)
  then have "is_nonspace c" by (simp add: is_nonspace_def)
  then have "length (dropWhile is_nonspace r) \<le> length cs"
    using rc by (simp add: length_dropWhile_le)
  moreover have "length r \<le> length s"
    using r by (simp add: length_dropWhile_le)
  ultimately show "(dropWhile is_nonspace r, s) \<in> measure length"
    using rc by simp
qed

declare py_split.simps [simp del]

text \<open>\<open>s.split(sep)\<close> for a separator of one character: empty pieces are kept.\<close>

fun py_split_on :: "nat \<Rightarrow> pystr \<Rightarrow> pystr list" where
  "py_split_on sep [] = [] # []"
| "py_split_on sep (c # cs) =
     (if c = sep then [] # py_split_on sep cs
      else (case py_split_on sep cs of
              [] \<Rightarrow> [c] # []
            | piece # pieces \<Rightarrow> (c # piece) # pieces))"

text \<open>\<open>s.replace(old, '')\<close> for \<open>old\<close> of one character: every occurrence is removed.\<close>

definition py_remove :: "nat \<Rightarrow> pystr \<Rightarrow> pystr" where
  "py_remove old s = filter (\<lambda>c. c \<noteq> old) s"


section \<open>Processes\<close>

text \<open>
  The exceptions the handlers distinguish: \<open>subprocess.CalledProcessError\<close> (return code,
  command, captured output and error text), \<open>OSError\<close> with the file name it is about
  (\<open>FileNotFoundError\<close>, \<open>NotADirectoryError\<close>, \<open>PermissionError\<close> are subclasses), and
  any other subclass of \<open>Exception\<close>, by name.
\<close>

datatype py_exc =
    CalledProcessError int "pystr list" pystr pystr
  | OSError pystr
  | OtherException string

text \<open>\<open>subprocess.CompletedProcess\<close>\<close>

record completed =
  returncode :: int
  stdout :: pystr
  stderr :: pystr

text \<open>
  The operating system as the program sees it, over a state \<open>'w\<close> of the machine (file
  system, repositories): which directories exist, and what starting a command in an existing
  directory does: the launch fails, with an \<open>OSError\<close> about a file (executable not found
  or not permitted) or with another exception (a null byte in an argument, output that
  cannot be decoded), or the process runs to its end; either way the machine has a new state.
\<close>

datatype launch_failure = Launch_OSError pystr | Launch_Other string

fun raised :: "launch_failure \<Rightarrow> py_exc" where
  "raised (Launch_OSError f) = OSError f"
| "raised (Launch_Other n) = OtherException n"

record 'w os =
  dir_exists :: "'w \<Rightarrow> pystr \<Rightarrow> bool"
  spawn :: "'w \<Rightarrow> pystr list \<Rightarrow> pystr \<Rightarrow> (launch_failure + completed) \<times> 'w"

section \<open>The window\<close>

text \<open>
  A \<open>QComboBox\<close>: its items, the text of the current one, and the placeholder text it
  was given with \<open>setPlaceholderText\<close> (empty when it was given none).
\<close>

record combo =
  items :: "pystr list"
  currentText :: pystr
  placeholderText :: pystr

text \<open>\<open>clear\<close> removes the items; no item is current any more.\<close>

definition combo_clear :: "combo \<Rightarrow> combo" where
  "combo_clear c = c\<lparr>items := [], currentText := []\<rparr>"

text \<open>
  \<open>addItem\<close> appends. The first item of an empty box becomes the current one when the
  box has no placeholder text; a box with a placeholder text keeps showing it, with no
  current item, until the user selects one.
\<close>

definition addItem :: "pystr \<Rightarrow> combo \<Rightarrow> combo" where
  "addItem x c =
     c\<lparr>items := items c @ [x],
       currentText := (if items c = [] \<and> placeholderText c = [] then x else currentText c)\<rparr>"

text \<open>
  The argument of \<open>show_error\<close>: a literal text, or a literal prefix followed by
  \<open>str(err)\<close> of an exception, which is kept as the exception itself.
\<close>

datatype err_msg = Plain pystr | StrOf pystr py_exc

text \<open>
  The attributes of \<open>GitGUI\<close> that the handlers read and write: the text of each line
  edit, the combo boxes, the check box, the paragraphs appended to each text area, the
  status label. Three more components record what a handler did: \<open>errors\<close>, the messages
  of the error dialogs shown by \<open>show_error\<close>; \<open>calls\<close>, the argument vector and working
  directory of every call of \<open>subprocess.run\<close>; \<open>world\<close>, the state of the machine.
\<close>

record 'w gui =
  current_branch :: pystr
  status_label :: pystr
  remote_url_lineedit :: pystr
  repo_path :: pystr
  commit_msg :: pystr
  output_text :: "pystr list"
  new_branch_name :: pystr
  delete_branch_combo :: combo
  rename_branch_combo :: combo
  new_branch_name_edit :: pystr
  merge_source_combo :: combo
  merge_target_combo :: combo
  remote_name :: pystr
  remote_url :: pystr
  remote_list :: combo
  branch_for_push :: combo
  force_push :: bool
  history_text :: "pystr list"
  advanced_output :: "pystr list"
  terminal_output :: "pystr list"
  command_input :: pystr
  errors :: "err_msg list"
  calls :: "(pystr list \<times> pystr) list"
  world :: "'w"

text \<open>
  How a handler ends: it returns, or an exception leaves it uncaught. Both carry the
  window as the handler left it.
\<close>

datatype 'w outcome = Returned "'w gui" | Raised py_exc "'w gui"

fun final :: "'w outcome \<Rightarrow> 'w gui" where
  "final (Returned s) = s"
| "final (Raised e s) = s"

fun uncaught :: "'w outcome \<Rightarrow> py_exc option" where
  "uncaught (Returned s) = None"
| "uncaught (Raised e s) = Some e"

definition show_error :: "err_msg \<Rightarrow> 'w gui \<Rightarrow> 'w gui" where
  "show_error m s = s\<lparr>errors := errors s @ [m]\<rparr>"

text \<open>
  \<open>subprocess.run(args, cwd=cwd, capture_output=True, text=True, check=True)\<close>, the only
  form the program uses. The call is recorded. \<open>Popen\<close> raises \<open>IndexError\<close> on an empty
  argument vector, \<open>ValueError\<close> when \<open>cwd\<close> holds a null character (code point 0; no
  directory has such a name), and an \<open>OSError\<close> naming \<open>cwd\<close> when that directory does
  not exist; with \<open>check=True\<close> a return code other than 0 raises \<open>CalledProcessError\<close>.
\<close>

definition subprocess_run ::
  "'w os \<Rightarrow> pystr list \<Rightarrow> pystr \<Rightarrow> 'w gui \<Rightarrow> (py_exc + completed) \<times> 'w gui" where
  "subprocess_run sys args cwd s =
     (let s1 = s\<lparr>calls := calls s @ [(args, cwd)]\<rparr>
      in if args = [] then (Inl (OtherException ''IndexError''), s1)
         else if dir_exists sys (world s) cwd then
           (case spawn sys (world s) args cwd of
              (Inl f, w) \<Rightarrow> (Inl (raised f), s1\<lparr>world := w\<rparr>)
            | (Inr r, w) \<Rightarrow>
                if returncode r = 0 then (Inr r, s1\<lparr>world := w\<rparr>)
                else (Inl (CalledProcessError (returncode r) args (stdout r) (stderr r)),
                      s1\<lparr>world := w\<rparr>))
         else if 0 \<in> set cwd then (Inl (OtherException ''ValueError''), s1)
         else (Inl (OSError cwd), s1))"

text \<open>
  The clause \<open>except subprocess.CalledProcessError as err: self.show_error(str(err))\<close>
  that closes most handlers: any other exception leaves the handler.
\<close>

fun except_CalledProcessError :: "py_exc \<Rightarrow> 'w gui \<Rightarrow> 'w outcome" where
  "except_CalledProcessError (CalledProcessError rc cmd out err) s =
     Returned (show_error (StrOf [] (CalledProcessError rc cmd out err)) s)"
| "except_CalledProcessError e s = Raised e s"


section \<open>Basic commands\<close>

definition git_init :: "'w os \<Rightarrow> 'w gui \<Rightarrow> 'w outcome" where
  "git_init sys s =
     (case subprocess_run sys [py ''git'', py ''init''] (repo_path s) s of
        (Inr result, s1) \<Rightarrow>
          Returned (s1\<lparr>output_text := output_text s1 @ [stdout result],
                       status_label := py ''Repository initialized''\<rparr>)
      | (Inl err, s1) \<Rightarrow> except_CalledProcessError err s1)"

definition git_add :: "'w os \<Rightarrow> 'w gui \<Rightarrow> 'w outcome" where
  "git_add sys s =
     (case subprocess_run sys [py ''git'', py ''add'', py ''.''] (repo_path s) s of
        (Inr result, s1) \<Rightarrow>
          Returned (s1\<lparr>output_text := output_text s1 @ [py ''Files added to staging area''],
                       status_label := py ''Files staged''\<rparr>)
      | (Inl err, s1) \<Rightarrow> except_CalledProcessError err s1)"

definition git_commit :: "'w os \<Rightarrow> 'w gui \<Rightarrow> 'w outcome" where
  "git_commit sys s =
     (let msg = py_strip (commit_msg s)
      in if msg = [] then Returned (show_error (Plain (py ''Please enter a commit message'')) s)
         else
           (case subprocess_run sys [py ''git'', py ''commit'', py ''-m'', msg] (repo_path s) s of
              (Inr result, s1) \<Rightarrow>
                Returned (s1\<lparr>output_text := output_text s1 @ [stdout result],
                             status_label := py ''Changes committed''\<rparr>)
            | (Inl err, s1) \<Rightarrow> except_CalledProcessError err s1))"

definition git_push :: "'w os \<Rightarrow> 'w gui \<Rightarrow> 'w outcome" where
  "git_push sys s =
     (case subprocess_run sys [py ''git'', py ''push'', py ''origin'', current_branch s]
             (repo_path s) s of
        (Inr result, s1) \<Rightarrow>
          Returned (s1\<lparr>output_text := output_text s1 @ [py ''Changes pushed successfully!''],
                       status_label := py ''Changes pushed to remote''\<rparr>)
      | (Inl err, s1) \<Rightarrow> except_CalledProcessError err s1)"

definition git_status :: "'w os \<Rightarrow> 'w gui \<Rightarrow> 'w outcome" where
  "git_status sys s =
     (case subprocess_run sys [py ''git'', py ''status''] (repo_path s) s of
        (Inr result, s1) \<Rightarrow> Returned (s1\<lparr>output_text := output_text s1 @ [stdout result]\<rparr>)
      | (Inl err, s1) \<Rightarrow> except_CalledProcessError err s1)"

section \<open>Advanced commands\<close>

definition create_branch :: "'w os \<Rightarrow> 'w gui \<Rightarrow> 'w outcome" where
  "create_branch sys s =
     (let branch = py_strip (new_branch_name s)
      in if branch = [] then Returned (show_error (Plain (py ''Please enter a branch name'')) s)
         else
           (case subprocess_run sys [py ''git'', py ''checkout'', py ''-b'', branch]
                   (repo_path s) s of
              (Inr result, s1) \<Rightarrow>
                Returned (s1\<lparr>advanced_output := advanced_output s1 @ [stdout result],
                             status_label := py ''Created and switched to branch: '' @ branch\<rparr>)
            | (Inl err, s1) \<Rightarrow> except_CalledProcessError err s1))"

definition delete_branch :: "'w os \<Rightarrow> 'w gui \<Rightarrow> 'w outcome" where
  "delete_branch sys s =
     (let branch = currentText (delete_branch_combo s)
      in if branch = [] then
           Returned (show_error (Plain (py ''Please select a branch to delete'')) s)
         else
           (case subprocess_run sys [py ''git'', py ''branch'', py ''-d'', branch]
                   (repo_path s) s of
              (Inr result, s1) \<Rightarrow>
                Returned (s1\<lparr>advanced_output := advanced_output s1 @ [stdout result],
                             status_label := py ''Deleted branch: '' @ branch\<rparr>)
            | (Inl err, s1) \<Rightarrow> except_CalledProcessError err s1))"

text \<open>In the status texts below, code point 39 is the apostrophe of the f-string.\<close>

definition rename_branch :: "'w os \<Rightarrow> 'w gui \<Rightarrow> 'w outcome" where
  "rename_branch sys s =
     (let old_branch = py_strip (currentText (rename_branch_combo s));
          new_branch = py_strip (new_branch_name_edit s)
      in if old_branch = [] \<or> new_branch = [] then
           Returned (show_error (Plain (py ''Current or new branch name cannot be empty.'')) s)
         else
           (case subprocess_run sys [py ''git'', py ''branch'', py ''-m'', old_branch, new_branch]
                   (repo_path s) s of
              (Inr result, s1) \<Rightarrow>
                Returned (s1\<lparr>advanced_output := advanced_output s1 @ [stdout result],
                             status_label :=
                               py ''Branch '' @ [39] @ old_branch @ [39] @ py '' renamed to ''
                               @ [39] @ new_branch @ [39] @ py ''.''\<rparr>)
            | (Inl err, s1) \<Rightarrow> except_CalledProcessError err s1))"

text \<open>
  The loop of \<open>refresh_branches\<close> over the lines of the output: every \<open>*\<close> (code point
  42) is removed from the line, the rest is stripped, and what is not empty is appended.
\<close>

fun collect_branches :: "pystr list \<Rightarrow> pystr list \<Rightarrow> pystr list" where
  "collect_branches branches [] = branches"
| "collect_branches branches (line # rest) =
     (let branch = py_strip (py_remove 42 line)
      in if branch = [] then collect_branches branches rest
         else collect_branches (branches @ [branch]) rest)"

text \<open>\<open>for x in xs: box.addItem(x)\<close>\<close>

fun addItems :: "pystr list \<Rightarrow> combo \<Rightarrow> combo" where
  "addItems [] c = c"
| "addItems (x # xs) c = addItems xs (addItem x c)"

text \<open>
  \<open>refresh_branches\<close> returns at once when the stripped path is empty, and closes with
  two clauses, for \<open>CalledProcessError\<close> and for every other \<open>Exception\<close>.
\<close>

definition refresh_branches :: "'w os \<Rightarrow> 'w gui \<Rightarrow> 'w outcome" where
  "refresh_branches sys s =
     (if py_strip (repo_path s) = [] then Returned s
      else
        (case subprocess_run sys [py ''git'', py ''branch'', py ''--list''] (repo_path s) s of
           (Inr result, s1) \<Rightarrow>
             (let branches = collect_branches [] (py_split_on 10 (stdout result))
              in Returned (s1\<lparr>
                   merge_source_combo := addItems branches (combo_clear (merge_source_combo s1)),
                   merge_target_combo := addItems branches (combo_clear (merge_target_combo s1)),
                   delete_branch_combo := addItems branches (combo_clear (delete_branch_combo s1)),
                   rename_branch_combo := addItems branches (combo_clear (rename_branch_combo s1)),
                   branch_for_push := addItems branches (combo_clear (branch_for_push s1))\<rparr>))
         | (Inl err, s1) \<Rightarrow>
             (case err of
                CalledProcessError rc cmd out e \<Rightarrow>
                  Returned (show_error (StrOf (py ''Failed to refresh branches: '') err) s1)
              | _ \<Rightarrow>
                  Returned (show_error
                    (StrOf (py ''Unexpected error while refreshing branches: '') err) s1))))"

text \<open>
  \<open>handle_merge_branches\<close>: two calls in one \<open>try\<close>; an exception of the first one
  skips the second.
\<close>

definition handle_merge_branches :: "'w os \<Rightarrow> 'w gui \<Rightarrow> 'w outcome" where
  "handle_merge_branches sys s =
     (let source_branch = py_strip (currentText (merge_source_combo s));
          target_branch = py_strip (currentText (merge_target_combo s))
      in if source_branch = [] \<or> target_branch = [] then
           Returned (show_error (Plain (py ''Please select source and target branches.'')) s)
         else
           (case subprocess_run sys [py ''git'', py ''checkout'', target_branch] (repo_path s) s of
              (Inl err, s1) \<Rightarrow> except_CalledProcessError err s1
            | (Inr result, s1) \<Rightarrow>
                (case subprocess_run sys [py ''git'', py ''merge'', source_branch]
                        (repo_path s1) s1 of
                   (Inl err, s2) \<Rightarrow> except_CalledProcessError err s2
                 | (Inr result_merge, s2) \<Rightarrow>
                     Returned (s2\<lparr>
                       advanced_output := advanced_output s2 @ [stdout result_merge],
                       status_label :=
                         py ''Branch '' @ [39] @ source_branch @ [39] @ py '' merged into ''
                         @ [39] @ target_branch @ [39] @ py ''.''\<rparr>))))"

definition git_fetch :: "'w os \<Rightarrow> 'w gui \<Rightarrow> 'w outcome" where
  "git_fetch sys s =
     (case subprocess_run sys [py ''git'', py ''fetch''] (repo_path s) s of
        (Inr result, s1) \<Rightarrow>
          Returned (s1\<lparr>advanced_output := advanced_output s1 @ [stdout result],
                       status_label := py ''Fetched latest updates from remote''\<rparr>)
      | (Inl err, s1) \<Rightarrow> except_CalledProcessError err s1)"

definition refresh_branch_history :: "'w os \<Rightarrow> 'w gui \<Rightarrow> 'w outcome" where
  "refresh_branch_history sys s =
     (case subprocess_run sys
             [py ''git'', py ''log'', py ''--oneline'', py ''--graph'', py ''--all'']
             (repo_path s) s of
        (Inr result, s1) \<Rightarrow>
          Returned (s1\<lparr>history_text := [stdout result],
                       status_label := py ''Branch history refreshed.''\<rparr>)
      | (Inl err, s1) \<Rightarrow> except_CalledProcessError err s1)"


section \<open>Remotes\<close>

definition add_remote :: "'w os \<Rightarrow> 'w gui \<Rightarrow> 'w outcome" where
  "add_remote sys s =
     (let url = py_strip (remote_url_lineedit s)
      in if url = [] then
           Returned (show_error (Plain (py ''Please enter remote repository URL'')) s)
         else
           (case subprocess_run sys [py ''git'', py ''remote'', py ''add'', py ''origin'', url]
                   (repo_path s) s of
              (Inr result, s1) \<Rightarrow>
                Returned (s1\<lparr>
                  output_text := output_text s1 @ [py ''Remote repository added successfully.''],
                  status_label := py ''Remote added''\<rparr>)
            | (Inl err, s1) \<Rightarrow> except_CalledProcessError err s1))"

definition add_remote_custom :: "'w os \<Rightarrow> 'w gui \<Rightarrow> 'w outcome" where
  "add_remote_custom sys s =
     (let r_name = py_strip (remote_name s);
          r_url = py_strip (remote_url s)
      in if r_name = [] \<or> r_url = [] then
           Returned (show_error (Plain (py ''Please enter remote name and URL'')) s)
         else
           (case subprocess_run sys [py ''git'', py ''remote'', py ''add'', r_name, r_url]
                   (repo_path s) s of
              (Inr result, s1) \<Rightarrow>
                Returned (s1\<lparr>advanced_output := advanced_output s1 @ [stdout result],
                             status_label :=
                               py ''Remote '' @ [39] @ r_name @ [39] @ py '' added.''\<rparr>)
            | (Inl err, s1) \<Rightarrow> except_CalledProcessError err s1))"

text \<open>
  The second loop of \<open>refresh_remotes\<close>: the same treatment of each line as in
  \<open>refresh_branches\<close>, adding to the combo box directly.
\<close>

fun add_branch_lines :: "pystr list \<Rightarrow> combo \<Rightarrow> combo" where
  "add_branch_lines [] c = c"
| "add_branch_lines (br_line # rest) c =
     (let br = py_strip (py_remove 42 br_line)
      in if br = [] then add_branch_lines rest c
         else add_branch_lines rest (addItem br c))"

definition refresh_remotes :: "'w os \<Rightarrow> 'w gui \<Rightarrow> 'w outcome" where
  "refresh_remotes sys s =
     (case subprocess_run sys [py ''git'', py ''remote''] (repo_path s) s of
        (Inl err, s1) \<Rightarrow> except_CalledProcessError err s1
      | (Inr result, s1) \<Rightarrow>
          (let remote_names = py_split (stdout result);
               s2 = s1\<lparr>remote_list := addItems remote_names (combo_clear (remote_list s1))\<rparr>
           in case subprocess_run sys [py ''git'', py ''branch'', py ''--list'']
                     (repo_path s2) s2 of
                (Inl err, s3) \<Rightarrow> except_CalledProcessError err s3
              | (Inr branch_list_result, s3) \<Rightarrow>
                  Returned (s3\<lparr>
                    branch_for_push :=
                      add_branch_lines (py_split_on 10 (stdout branch_list_result))
                        (combo_clear (branch_for_push s3)),
                    advanced_output := advanced_output s3 @ [py ''Remote list refreshed.'']\<rparr>)))"

definition git_push_advanced :: "'w os \<Rightarrow> 'w gui \<Rightarrow> 'w outcome" where
  "git_push_advanced sys s =
     (let branch = py_strip (currentText (branch_for_push s))
      in if branch = [] then Returned (show_error (Plain (py ''No branch selected for push'')) s)
         else
           (let args = (if force_push s
                        then [py ''git'', py ''push'', py ''origin'', py ''--force'', branch]
                        else [py ''git'', py ''push'', py ''origin'', branch])
            in case subprocess_run sys args (repo_path s) s of
                 (Inr result, s1) \<Rightarrow>
                   Returned (s1\<lparr>advanced_output := advanced_output s1 @ [stdout result],
                                status_label :=
                                  py ''Pushed to remote (branch: '' @ branch @ py '')''\<rparr>)
               | (Inl err, s1) \<Rightarrow> except_CalledProcessError err s1))"

definition git_pull :: "'w os \<Rightarrow> 'w gui \<Rightarrow> 'w outcome" where
  "git_pull sys s =
     (case subprocess_run sys [py ''git'', py ''pull''] (repo_path s) s of
        (Inr result, s1) \<Rightarrow>
          Returned (s1\<lparr>output_text := output_text s1 @ [stdout result],
                       advanced_output := advanced_output s1 @ [stdout result],
                       status_label := py ''Changes pulled from remote''\<rparr>)
      | (Inl err, s1) \<Rightarrow> except_CalledProcessError err s1)"

section \<open>Toolbar and terminal\<close>

text \<open>
  \<open>change_branch\<close>: the attribute is assigned first. The plain \<open>checkout\<close> stands under
  \<open>if result.returncode != 0\<close>, as in the source.
\<close>

definition change_branch :: "'w os \<Rightarrow> 'w gui \<Rightarrow> pystr \<Rightarrow> 'w outcome" where
  "change_branch sys s branch_name =
     (let s0 = s\<lparr>current_branch := branch_name\<rparr>
      in case subprocess_run sys [py ''git'', py ''checkout'', py ''-b'', branch_name]
                (repo_path s0) s0 of
           (Inl err, s1) \<Rightarrow> except_CalledProcessError err s1
         | (Inr result, s1) \<Rightarrow>
             (if returncode result \<noteq> 0 then
                (case subprocess_run sys [py ''git'', py ''checkout'', branch_name]
                        (repo_path s1) s1 of
                   (Inl err, s2) \<Rightarrow> except_CalledProcessError err s2
                 | (Inr r2, s2) \<Rightarrow>
                     Returned (s2\<lparr>status_label :=
                                   py ''Switched to branch: '' @ branch_name\<rparr>))
              else
                Returned (s1\<lparr>status_label := py ''Switched to branch: '' @ branch_name\<rparr>)))"

text \<open>
  \<open>execute_command\<close>: both texts are stripped, the two checks come before the \<open>try\<close>,
  whose three clauses catch every \<open>Exception\<close>; the input line is cleared afterwards,
  not on the two early returns.
\<close>

definition execute_command :: "'w os \<Rightarrow> 'w gui \<Rightarrow> 'w outcome" where
  "execute_command sys s =
     (let command = py_strip (command_input s);
          repo = py_strip (repo_path s)
      in if repo = [] then
           Returned (show_error (Plain (py ''Please select a repository path first'')) s)
         else if startswith command (py ''git'') then
           (let command_list = py_split command;
                s3 = (case subprocess_run sys command_list repo s of
                        (Inr result, s1) \<Rightarrow>
                          s1\<lparr>terminal_output := terminal_output s1 @
                               [py ''$ '' @ command @ [10] @ stdout result]\<rparr>
                      | (Inl err, s1) \<Rightarrow>
                          (case err of
                             CalledProcessError rc cmd out e \<Rightarrow>
                               show_error (StrOf (py ''Command failed: '') err) s1
                           | OSError f \<Rightarrow> show_error (StrOf (py ''System error: '') err) s1
                           | _ \<Rightarrow> show_error (StrOf (py ''Unexpected error: '') err) s1))
            in Returned (s3\<lparr>command_input := []\<rparr>))
         else Returned (show_error (Plain (py ''Only git commands are allowed'')) s))"

section \<open>An example machine\<close>

text \<open>
  A small machine for evaluating the handlers: its state is the list of the branches of
  the one repository, in the one directory \<open>/repo\<close>, the first branch being the current
  one. \<open>checkout -b\<close> of an existing branch, and \<open>checkout\<close> and \<open>merge\<close> of a missing
  one, end with a return code other than 0; \<open>remote\<close> prints the one remote and
  \<open>branch --list\<close> the branches; every other command ends with 0 and prints nothing.
\<close>

definition exited :: "int \<Rightarrow> completed" where
  "exited rc = \<lparr>returncode = rc, stdout = [], stderr = []\<rparr>"

definition printed :: "pystr \<Rightarrow> completed" where
  "printed out = \<lparr>returncode = 0, stdout = out, stderr = []\<rparr>"

fun branch_listing :: "pystr list \<Rightarrow> pystr" where
  "branch_listing [] = []"
| "branch_listing (b # bs) =
     py ''* '' @ b @ [10] @ concat (map (\<lambda>x. py ''  '' @ x @ [10]) bs)"

definition demo_spawn ::
  "pystr list \<Rightarrow> pystr list \<Rightarrow> pystr \<Rightarrow> (launch_failure + completed) \<times> pystr list" where
  "demo_spawn w args cwd =
     (if args = [py ''git'', py ''remote''] then (Inr (printed (py ''origin\<newline>'')), w)
      else if args = [py ''git'', py ''branch'', py ''--list''] then
        (Inr (printed (branch_listing w)), w)
      else if take 3 args = [py ''git'', py ''checkout'', py ''-b''] \<and> length args = 4 then
        (if args ! 3 \<in> set w then (Inr (exited 128), w) else (Inr (exited 0), w @ [args ! 3]))
      else if take 2 args = [py ''git'', py ''checkout''] \<and> length args = 3 then
        (if args ! 2 \<in> set w then (Inr (exited 0), w) else (Inr (exited 1), w))
      else if take 2 args = [py ''git'', py ''merge''] \<and> length args = 3 then
        (if args ! 2 \<in> set w then (Inr (exited 0), w) else (Inr (exited 1), w))
      else (Inr (exited 0), w))"

definition demo_os :: "pystr list os" where
  "demo_os = \<lparr>dir_exists = (\<lambda>w d. d = py ''/repo''), spawn = demo_spawn\<rparr>"

text \<open>
  A fresh window over a repository with the branches \<open>main\<close> and \<open>develop\<close>; four of
  the combo boxes are created with a placeholder text.
\<close>

definition window :: "pystr \<Rightarrow> pystr list gui" where
  "window path =
     \<lparr>current_branch = py ''main'', status_label = py ''Ready'',
      remote_url_lineedit = [], repo_path = path, commit_msg = [], output_text = [],
      new_branch_name = [],
      delete_branch_combo =
        \<lparr>items = [], currentText = [], placeholderText = py ''Select branch to delete...''\<rparr>,
      rename_branch_combo =
        \<lparr>items = [], currentText = [], placeholderText = py ''Current branch name...''\<rparr>,
      new_branch_name_edit = [],
      merge_source_combo =
        \<lparr>items = [], currentText = [], placeholderText = py ''Source branch...''\<rparr>,
      merge_target_combo =
        \<lparr>items = [], currentText = [], placeholderText = py ''Target branch...''\<rparr>,
      remote_name = [], remote_url = [],
      remote_list = \<lparr>items = [], currentText = [], placeholderText = []\<rparr>,
      branch_for_push = \<lparr>items = [], currentText = [], placeholderText = []\<rparr>,
      force_push = False, history_text = [], advanced_output = [], terminal_output = [],
      command_input = [], errors = [], calls = [],
      world = [py ''main'', py ''develop'']\<rparr>"


text \<open>The window with one branch selected as source and one as target of a merge.\<close>

definition merge_window :: "pystr \<Rightarrow> pystr \<Rightarrow> pystr list gui" where
  "merge_window src tgt =
     (window (py ''/repo''))
       \<lparr>merge_source_combo :=
          \<lparr>items = [src], currentText = src, placeholderText = py ''Source branch...''\<rparr>,
        merge_target_combo :=
          \<lparr>items = [tgt], currentText = tgt, placeholderText = py ''Target branch...''\<rparr>\<rparr>"

text \<open>The window with one branch selected for the push, and the force box.\<close>

definition push_window :: "pystr \<Rightarrow> bool \<Rightarrow> pystr list gui" where
  "push_window b force =
     (window (py ''/repo''))
       \<lparr>branch_for_push := \<lparr>items = [b], currentText = b, placeholderText = []\<rparr>,
        force_push := force\<rparr>"

section \<open>The branch list as the specification words it\<close>

text \<open>
  The specification's wording of the branch list: each line of the output with its
  leading \<open>*\<close> marker and the surrounding whitespace stripped, empty lines discarded.
\<close>

definition spec_strip_marker :: "pystr \<Rightarrow> pystr" where
  "spec_strip_marker line = (case line of [] \<Rightarrow> [] | c # cs \<Rightarrow> if c = 42 then cs else line)"

definition spec_branch_list :: "pystr \<Rightarrow> pystr list" where
  "spec_branch_list raw =
     filter (\<lambda>b. b \<noteq> [])
       (map (\<lambda>line. py_strip (spec_strip_marker (py_strip line))) (py_split_on 10 raw))"
section \<open>Evaluating on concrete input\<close>

lemmas str_defs =
  py_def is_space_def is_nonspace_def py_strip_def py_lstrip_def py_rstrip_def startswith_def
  py_remove_def

lemmas run_defs =
  Let_def subprocess_run_def show_error_def
  demo_os_def demo_spawn_def exited_def printed_def window_def combo_clear_def addItem_def

lemma strip_develop: "py_strip (py ''develop'') = py ''develop''" by (simp add: str_defs)

lemma strip_release: "py_strip (py ''release'') = py ''release''" by (simp add: str_defs)

lemma strip_feature: "py_strip (py ''feature'') = py ''feature''" by (simp add: str_defs)

section \<open>Facts about the string functions\<close>

lemma py_split_Nil: "py_split [] = []"
  by (simp add: py_split.simps)

lemma py_split_unfold:
  assumes "dropWhile is_space s = r" and "r \<noteq> []"
  shows "py_split s = takeWhile is_nonspace r # py_split (dropWhile is_nonspace r)"
proof -
  have "py_split s =
          (let r = dropWhile is_space s
           in if r = [] then []
              else takeWhile is_nonspace r # py_split (dropWhile is_nonspace r))"
    by (rule py_split.simps)
  then show ?thesis unfolding Let_def by (simp only: assms if_False)
qed

lemma py_split_space: "is_space x \<Longrightarrow> py_split (x # rest) = py_split rest"
  by (simp add: py_split.simps [of "x # rest"] py_split.simps [of rest])

lemma py_split_token:
  assumes "t \<noteq> []" and "\<forall>c\<in>set t. \<not> is_space c" and "is_space x"
  shows "py_split (t @ x # rest) = t # py_split rest"
proof -
  obtain c cs where t: "t = c # cs" using assms(1) by (cases t) auto
  have d: "dropWhile is_space (t @ x # rest) = t @ x # rest"
    using assms(2) t by simp
  have all: "\<forall>c\<in>set t. is_nonspace c" using assms(2) by (simp add: is_nonspace_def)
  have nx: "\<not> is_nonspace x" using assms(3) by (simp add: is_nonspace_def)
  have tk: "takeWhile is_nonspace (t @ x # rest) = t"
    using all nx by (simp add: takeWhile_tail)
  have dr: "dropWhile is_nonspace (t @ x # rest) = x # rest"
    using all nx by (simp add: dropWhile_append3)
  have "py_split (t @ x # rest) =
          (let r = dropWhile is_space (t @ x # rest)
           in if r = [] then []
              else takeWhile is_nonspace r # py_split (dropWhile is_nonspace r))"
    by (rule py_split.simps)
  also have "\<dots> = t # py_split (x # rest)"
    unfolding Let_def d tk dr by simp
  finally show ?thesis
    using py_split_space [OF assms(3), of rest] by simp
qed

lemma py_split_single:
  assumes "t \<noteq> []" and "\<forall>c\<in>set t. \<not> is_space c"
  shows "py_split t = [t]"
proof -
  obtain c cs where t: "t = c # cs" using assms(1) by (cases t) auto
  have d: "dropWhile is_space t = t" using assms(2) t by simp
  have all: "\<forall>c\<in>set t. is_nonspace c" using assms(2) by (simp add: is_nonspace_def)
  have tk: "takeWhile is_nonspace t = t" using all by simp
  have dr: "dropWhile is_nonspace t = []" using all by simp
  have "py_split t =
          (let r = dropWhile is_space t
           in if r = [] then []
              else takeWhile is_nonspace r # py_split (dropWhile is_nonspace r))"
    by (rule py_split.simps)
  also have "\<dots> = [t]"
    unfolding Let_def d tk dr using assms(1) py_split_Nil by simp
  finally show ?thesis .
qed

lemma py_split_tokens:
  "\<forall>t\<in>set (py_split s). t \<noteq> [] \<and> (\<forall>c\<in>set t. \<not> is_space c)"
proof (induction s rule: py_split.induct)
  case (1 s)
  define r where "r = dropWhile is_space s"
  show ?case
  proof (cases "r = []")
    case True
    then show ?thesis using r_def by (simp add: py_split.simps [of s])
  next
    case False
    then obtain c cs where rc: "r = c # cs" by (cases r) auto
    have "\<not> is_space c" using rc r_def by (metis hd_dropWhile list.sel(1) False)
    then have h: "takeWhile is_nonspace r \<noteq> []" using rc by (simp add: is_nonspace_def)
    have n: "\<forall>c\<in>set (takeWhile is_nonspace r). \<not> is_space c"
      by (auto dest: set_takeWhileD simp: is_nonspace_def split: if_splits)
    have ih: "\<forall>t\<in>set (py_split (dropWhile is_nonspace r)). t \<noteq> [] \<and> (\<forall>c\<in>set t. \<not> is_space c)"
      using "1.IH" [OF r_def False] .
    have "py_split s = takeWhile is_nonspace r # py_split (dropWhile is_nonspace r)"
      using py_split_unfold [OF r_def [symmetric] False] .
    then show ?thesis using h n ih by simp
  qed
qed

lemma filter_dropWhile_space:
  "filter is_nonspace (dropWhile is_space s) = filter is_nonspace s"
  by (induction s) (simp_all add: is_nonspace_def)

lemma filter_take_drop:
  "filter P r = takeWhile P r @ filter P (dropWhile P r)"
  by (induction r) simp_all

lemma py_split_concat: "concat (py_split s) = filter is_nonspace s"
proof (induction s rule: py_split.induct)
  case (1 s)
  define r where "r = dropWhile is_space s"
  show ?case
  proof (cases "r = []")
    case True
    then have "\<forall>x\<in>set s. is_space x" using r_def by simp
    then have "filter is_nonspace s = []"
      by (simp add: is_nonspace_def filter_empty_conv)
    then show ?thesis using True r_def by (simp add: py_split.simps [of s])
  next
    case False
    have "py_split s = takeWhile is_nonspace r # py_split (dropWhile is_nonspace r)"
      using py_split_unfold [OF r_def [symmetric] False] .
    then have "concat (py_split s) = takeWhile is_nonspace r @ filter is_nonspace (dropWhile is_nonspace r)"
      using "1.IH" [OF r_def False] by simp
    also have "\<dots> = filter is_nonspace r" using filter_take_drop [of is_nonspace r] by simp
    also have "\<dots> = filter is_nonspace s" using filter_dropWhile_space [of s] r_def by simp
    finally show ?thesis .
  qed
qed

lemma example_remote_list:
  "py_split (py ''origin upstream\<newline>'') = [py ''origin'', py ''upstream'']"
  by (simp add: py_split.simps str_defs)

lemma startswith_git_split:
  assumes "startswith c (py ''git'')"
  shows "py_split c \<noteq> []"
proof -
  obtain cs where c: "c = 103 # cs"
    using assms by (cases c) (auto simp: startswith_def py_def)
  have "dropWhile is_space c = c"
    using c by (simp add: is_space_def)
  then show ?thesis
    using py_split_unfold [of c c] c by simp
qed

lemma py_rstrip_append:
  assumes "a \<noteq> []" and "\<not> is_space (last a)"
  shows "py_rstrip (a @ b) = a @ py_rstrip b"
proof -
  have d: "dropWhile is_space (rev a) = rev a"
    using assms by (cases a rule: rev_cases) simp_all
  show ?thesis
    using d by (simp add: py_rstrip_def dropWhile_append)
qed

lemma first_token_git_accepted:
  assumes "py_split c \<noteq> []" and "hd (py_split c) = py ''git''"
  shows "startswith (py_strip c) (py ''git'')"
proof -
  define r where "r = dropWhile is_space c"
  have "py_split c = []" if "r = []"
    using that unfolding r_def by (subst py_split.simps) (simp add: Let_def)
  then have ne: "r \<noteq> []"
    using assms(1) by blast
  have "py_split c = takeWhile is_nonspace r # py_split (dropWhile is_nonspace r)"
    using py_split_unfold [OF r_def [symmetric] ne] .
  then have tk: "takeWhile is_nonspace r = py ''git''"
    using assms(2) by simp
  have "r = takeWhile is_nonspace r @ dropWhile is_nonspace r" by simp
  then have r: "r = py ''git'' @ dropWhile is_nonspace r" using tk by simp
  have "py_strip c = py_rstrip r"
    by (simp add: py_strip_def py_lstrip_def r_def)
  also have "\<dots> = py_rstrip (py ''git'' @ dropWhile is_nonspace r)"
    using r by simp
  also have "\<dots> = py ''git'' @ py_rstrip (dropWhile is_nonspace r)"
    by (rule py_rstrip_append) (simp_all add: py_def is_space_def)
  finally show ?thesis by (simp add: startswith_def)
qed

lemma py_split_on_not_Nil: "py_split_on sep s \<noteq> []"
  by (induction s) (simp_all split: list.splits)

lemma py_split_on_no_sep: "\<forall>l\<in>set (py_split_on sep s). sep \<notin> set l"
proof (induction s)
  case Nil
  then show ?case by simp
next
  case (Cons c cs)
  obtain x xs where p: "py_split_on sep cs = x # xs"
    using py_split_on_not_Nil [of sep cs] by (cases "py_split_on sep cs") auto
  with Cons show ?case by auto
qed

lemma py_split_on_join:
  "concat (map (\<lambda>l. l @ [sep]) (py_split_on sep s)) = s @ [sep]"
proof (induction s)
  case Nil
  then show ?case by simp
next
  case (Cons c cs)
  obtain x xs where p: "py_split_on sep cs = x # xs"
    using py_split_on_not_Nil [of sep cs] by (cases "py_split_on sep cs") auto
  with Cons show ?case by auto
qed

lemma py_strip_idem: "py_strip (py_strip x) = py_strip x"
proof -
  define z where "z = dropWhile is_space x"
  define y where "y = rev (dropWhile is_space (rev z))"
  have y: "py_strip x = y"
    by (simp add: py_strip_def py_lstrip_def py_rstrip_def y_def z_def)
  have r: "dropWhile is_space (rev y) = rev y"
    by (simp add: y_def)
  have l: "dropWhile is_space y = y"
  proof (cases "y = []")
    case True
    then show ?thesis by simp
  next
    case False
    have "rev (rev z) = rev (takeWhile is_space (rev z) @ dropWhile is_space (rev z))"
      by (simp only: takeWhile_dropWhile_id)
    then have zy: "z = y @ rev (takeWhile is_space (rev z))"
      by (simp only: rev_rev_ident rev_append y_def)
    then have "hd z = hd y" using False by (metis hd_append2)
    moreover have "z \<noteq> []" using zy False by auto
    then have "\<not> is_space (hd z)" unfolding z_def by (rule hd_dropWhile)
    ultimately have "\<not> is_space (hd y)" by simp
    then show ?thesis using False by (cases y) simp_all
  qed
  have "py_strip y = y"
    by (simp add: py_strip_def py_lstrip_def py_rstrip_def l r)
  then show ?thesis using y by simp
qed

lemma py_strip_pad:
  assumes "\<forall>c\<in>set a. is_space c" and "\<forall>c\<in>set b. is_space c"
  shows "py_strip (a @ u @ b) = py_strip u"
proof -
  have l: "dropWhile is_space (a @ u @ b) = dropWhile is_space (u @ b)"
    using assms(1) by (simp add: dropWhile_append2)
  have s: "py_strip (a @ u @ b) = rev (dropWhile is_space (rev (dropWhile is_space (u @ b))))"
    by (simp only: py_strip_def py_lstrip_def py_rstrip_def l)
  have t: "py_strip u = rev (dropWhile is_space (rev (dropWhile is_space u)))"
    by (simp only: py_strip_def py_lstrip_def py_rstrip_def)
  show ?thesis
  proof (cases "\<forall>c\<in>set u. is_space c")
    case True
    then have "dropWhile is_space (u @ b) = []" and "dropWhile is_space u = []"
      using assms(2) by simp_all
    then show ?thesis
      by (simp only: s t)
  next
    case False
    then have e: "dropWhile is_space (u @ b) = dropWhile is_space u @ b"
      by (auto simp: dropWhile_append)
    have "dropWhile is_space (rev b @ rev v) = dropWhile is_space (rev v)" for v
      using assms(2) by (auto simp: dropWhile_append)
    then show ?thesis
      by (simp only: s t e rev_append)
  qed
qed

lemma py_strip_decomp:
  "\<exists>a b. line = a @ py_strip line @ b \<and> (\<forall>c\<in>set a. is_space c) \<and> (\<forall>c\<in>set b. is_space c)"
proof -
  define z where "z = dropWhile is_space line"
  define b where "b = rev (takeWhile is_space (rev z))"
  have "rev (rev z) = rev (takeWhile is_space (rev z) @ dropWhile is_space (rev z))"
    by (simp only: takeWhile_dropWhile_id)
  then have z: "z = py_strip line @ b"
    by (simp only: rev_rev_ident rev_append b_def py_strip_def py_lstrip_def py_rstrip_def z_def)
  have "line = takeWhile is_space line @ z"
    by (simp add: z_def)
  then have "line = takeWhile is_space line @ py_strip line @ b"
    using z by simp
  moreover have "\<forall>c\<in>set (takeWhile is_space line). is_space c"
    by (auto dest: set_takeWhileD)
  moreover have "\<forall>c\<in>set b. is_space c"
    by (auto simp: b_def dest: set_takeWhileD)
  ultimately show ?thesis by blast
qed

lemma py_remove_spaces:
  "\<forall>c\<in>set a. is_space c \<Longrightarrow> py_remove 42 a = a"
  by (induction a) (auto simp: py_remove_def is_space_def)

lemma py_remove_absent: "42 \<notin> set t \<Longrightarrow> py_remove 42 t = t"
  by (induction t) (auto simp: py_remove_def)

lemma collect_branches_eq:
  "collect_branches acc ls =
     acc @ filter (\<lambda>b. b \<noteq> []) (map (\<lambda>line. py_strip (py_remove 42 line)) ls)"
  by (induction ls arbitrary: acc) (simp_all add: Let_def)

lemma collect_branches_stripped:
  "\<forall>b\<in>set (collect_branches [] ls). b \<noteq> [] \<and> py_strip b = b"
  by (auto simp: collect_branches_eq py_strip_idem)

lemma example_branch_list:
  "collect_branches [] (py_split_on 10 (py ''* main\<newline>  develop\<newline>  feature/x\<newline>'')) =
     [py ''main'', py ''develop'', py ''feature/x'']"
  by (simp add: str_defs)

lemma marker_line:
  assumes "42 \<notin> set (spec_strip_marker (py_strip line))"
  shows "py_strip (py_remove 42 line) = py_strip (spec_strip_marker (py_strip line))"
proof -
  obtain a b where d: "line = a @ py_strip line @ b"
    and a: "\<forall>c\<in>set a. is_space c" and b: "\<forall>c\<in>set b. is_space c"
    using py_strip_decomp [of line] by blast
  have "py_remove 42 line = py_remove 42 (a @ py_strip line @ b)"
    using d by simp
  also have "\<dots> = a @ py_remove 42 (py_strip line) @ b"
    using py_remove_spaces [OF a] py_remove_spaces [OF b] by (simp add: py_remove_def)
  finally have "py_strip (py_remove 42 line) = py_strip (py_remove 42 (py_strip line))"
    using py_strip_pad [OF a b] by simp
  moreover have "py_remove 42 (py_strip line) = spec_strip_marker (py_strip line)"
  proof (cases "py_strip line")
    case Nil
    then show ?thesis by (simp add: spec_strip_marker_def py_remove_def)
  next
    case (Cons c cs)
    then show ?thesis
      using assms py_remove_absent [of cs] py_remove_absent [of "c # cs"]
      by (auto simp: spec_strip_marker_def py_remove_def split: if_splits)
  qed
  ultimately show ?thesis by simp
qed

lemma spec_branch_list_agrees:
  assumes "\<forall>line\<in>set (py_split_on 10 raw). 42 \<notin> set (spec_strip_marker (py_strip line))"
  shows "collect_branches [] (py_split_on 10 raw) = spec_branch_list raw"
proof -
  have "map (\<lambda>line. py_strip (py_remove 42 line)) (py_split_on 10 raw) =
        map (\<lambda>line. py_strip (spec_strip_marker (py_strip line))) (py_split_on 10 raw)"
    using assms by (intro map_cong) (auto simp: marker_line)
  then show ?thesis
    by (simp only: collect_branches_eq spec_branch_list_def append_Nil)
qed

text \<open>
  A \<open>*\<close> inside a line is removed as well, where the specification's wording keeps it.
\<close>

lemma inner_asterisk_removed:
  "collect_branches [] (py_split_on 10 (py ''feat*x\<newline>'')) = [py ''featx''] \<and>
   spec_branch_list (py ''feat*x\<newline>'') = [py ''feat*x'']"
  by (simp add: spec_branch_list_def spec_strip_marker_def str_defs)

lemma items_addItem: "items (addItem x c) = items c @ [x]"
  by (simp add: addItem_def)

lemma items_addItems: "items (addItems xs c) = items c @ xs"
  by (induction xs arbitrary: c) (simp_all add: items_addItem)

lemma items_add_branch_lines:
  "items (add_branch_lines ls c) = items c @ collect_branches [] ls"
proof (induction ls arbitrary: c)
  case Nil
  then show ?case by simp
next
  case (Cons l ls)
  then show ?case
    by (simp add: Let_def items_addItem collect_branches_eq)
qed

section \<open>Facts about running a process\<close>

lemma raised_not_CalledProcessError [simp]:
  "raised f \<noteq> CalledProcessError rc cmd out err"
  by (cases f) simp_all

lemma subprocess_run_CalledProcessError:
  "subprocess_run sys args cwd s = (Inl (CalledProcessError rc cmd out err), s1) \<Longrightarrow>
     cmd = args \<and> rc \<noteq> 0"
  by (auto simp: subprocess_run_def Let_def split: prod.splits sum.splits if_splits)

lemma subprocess_run_calls:
  "calls (snd (subprocess_run sys args cwd s)) = calls s @ [(args, cwd)]"
  by (simp add: subprocess_run_def Let_def split: prod.splits sum.splits)

lemma subprocess_run_Inr:
  "subprocess_run sys args cwd s = (Inr r, s1) \<Longrightarrow> returncode r = 0"
  by (auto simp: subprocess_run_def Let_def split: prod.splits sum.splits if_splits)

lemma subprocess_run_missing:
  "args \<noteq> [] \<Longrightarrow> 0 \<notin> set cwd \<Longrightarrow> dir_exists sys (world s) cwd = False \<Longrightarrow>
     subprocess_run sys args cwd s = (Inl (OSError cwd), s\<lparr>calls := calls s @ [(args, cwd)]\<rparr>)"
  by (simp add: subprocess_run_def)

lemma subprocess_run_frame:
  "errors (snd (subprocess_run sys args cwd s)) = errors s"
  "status_label (snd (subprocess_run sys args cwd s)) = status_label s"
  "current_branch (snd (subprocess_run sys args cwd s)) = current_branch s"
  "repo_path (snd (subprocess_run sys args cwd s)) = repo_path s"
  "advanced_output (snd (subprocess_run sys args cwd s)) = advanced_output s"
  "remote_list (snd (subprocess_run sys args cwd s)) = remote_list s"
  by (simp_all add: subprocess_run_def Let_def split: prod.splits sum.splits)

lemma subprocess_run_snd:
  assumes "subprocess_run sys args cwd s = (res, s1)"
  shows "calls s1 = calls s @ [(args, cwd)]" and "errors s1 = errors s"
    and "status_label s1 = status_label s" and "repo_path s1 = repo_path s"
    and "advanced_output s1 = advanced_output s" and "remote_list s1 = remote_list s"
  using assms subprocess_run_calls [of sys args cwd s] subprocess_run_frame [of sys args cwd s]
  by simp_all

lemma subprocess_run_spawn:
  "args \<noteq> [] \<Longrightarrow> dir_exists sys (world s) cwd \<Longrightarrow>
     world (snd (subprocess_run sys args cwd s)) = snd (spawn sys (world s) args cwd)"
  by (simp add: subprocess_run_def Let_def split: prod.splits sum.splits)

lemma final_except [simp]:
  "calls (final (except_CalledProcessError e s)) = calls s"
  "current_branch (final (except_CalledProcessError e s)) = current_branch s"
  "repo_path (final (except_CalledProcessError e s)) = repo_path s"
  "status_label (final (except_CalledProcessError e s)) = status_label s"
  "advanced_output (final (except_CalledProcessError e s)) = advanced_output s"
  "remote_list (final (except_CalledProcessError e s)) = remote_list s"
  by (cases e; simp add: show_error_def)+

lemma except_other:
  "(\<forall>rc cmd out err. e \<noteq> CalledProcessError rc cmd out err) \<Longrightarrow>
     except_CalledProcessError e s = Raised e s"
  by (cases e) simp_all

lemma except_CalledProcessError_shown:
  "e = CalledProcessError rc cmd out err \<Longrightarrow>
     except_CalledProcessError e s = Returned (s\<lparr>errors := errors s @ [StrOf [] e]\<rparr>)"
  by (simp add: show_error_def)

section \<open>Facts about the handlers\<close>

lemma git_push_calls:
  "calls (final (git_push sys s)) =
     calls s @ [([py ''git'', py ''push'', py ''origin'', current_branch s], repo_path s)]"
  using subprocess_run_calls [of sys "[py ''git'', py ''push'', py ''origin'', current_branch s]"
          "repo_path s" s]
  by (auto simp: git_push_def split: prod.splits sum.splits)

lemma git_push_advanced_calls:
  assumes "py_strip (currentText (branch_for_push s)) = b" and "b \<noteq> []"
  shows "calls (final (git_push_advanced sys s)) =
           calls s @ [(if force_push s
                       then [py ''git'', py ''push'', py ''origin'', py ''--force'', b]
                       else [py ''git'', py ''push'', py ''origin'', b], repo_path s)]"
proof (cases "force_push s")
  case True
  then show ?thesis
    using assms
      subprocess_run_calls [of sys "[py ''git'', py ''push'', py ''origin'', py ''--force'', b]"
        "repo_path s" s]
    by (auto simp: git_push_advanced_def split: prod.splits sum.splits)
next
  case False
  then show ?thesis
    using assms
      subprocess_run_calls [of sys "[py ''git'', py ''push'', py ''origin'', b]" "repo_path s" s]
    by (auto simp: git_push_advanced_def split: prod.splits sum.splits)
qed

lemma change_branch_calls:
  "calls (final (change_branch sys s b)) =
     calls s @ [([py ''git'', py ''checkout'', py ''-b'', b], repo_path s)]"
proof (cases "subprocess_run sys [py ''git'', py ''checkout'', py ''-b'', b] (repo_path s)
                (s\<lparr>current_branch := b\<rparr>)")
  case (Pair res s1)
  have c: "calls s1 = calls s @ [([py ''git'', py ''checkout'', py ''-b'', b], repo_path s)]"
    using subprocess_run_calls [of sys "[py ''git'', py ''checkout'', py ''-b'', b]" "repo_path s"
      "s\<lparr>current_branch := b\<rparr>"] Pair by simp
  show ?thesis
  proof (cases res)
    case (Inl e)
    with Pair c show ?thesis by (simp add: change_branch_def Let_def)
  next
    case (Inr r)
    with Pair have "returncode r = 0" by (auto dest: subprocess_run_Inr)
    with Pair Inr c show ?thesis by (simp add: change_branch_def Let_def)
  qed
qed

lemma change_branch_frame:
  "current_branch (final (change_branch sys s b)) = b \<and>
   repo_path (final (change_branch sys s b)) = repo_path s"
proof (cases "subprocess_run sys [py ''git'', py ''checkout'', py ''-b'', b] (repo_path s)
                (s\<lparr>current_branch := b\<rparr>)")
  case (Pair res s1)
  have c: "current_branch s1 = b \<and> repo_path s1 = repo_path s"
    using subprocess_run_frame(3,4) [of sys "[py ''git'', py ''checkout'', py ''-b'', b]"
      "repo_path s" "s\<lparr>current_branch := b\<rparr>"] Pair by simp
  show ?thesis
  proof (cases res)
    case (Inl e)
    with Pair c show ?thesis by (simp add: change_branch_def Let_def)
  next
    case (Inr r)
    with Pair have "returncode r = 0" by (auto dest: subprocess_run_Inr)
    with Pair Inr c show ?thesis by (simp add: change_branch_def Let_def)
  qed
qed

lemma git_commit_calls:
  assumes "py_strip (commit_msg s) = m" and "m \<noteq> []"
  shows "calls (final (git_commit sys s)) =
           calls s @ [([py ''git'', py ''commit'', py ''-m'', m], repo_path s)]"
  using assms
    subprocess_run_calls [of sys "[py ''git'', py ''commit'', py ''-m'', m]" "repo_path s" s]
  by (auto simp: git_commit_def split: prod.splits sum.splits)

lemma create_branch_calls:
  assumes "py_strip (new_branch_name s) = b" and "b \<noteq> []"
  shows "calls (final (create_branch sys s)) =
           calls s @ [([py ''git'', py ''checkout'', py ''-b'', b], repo_path s)]"
  using assms
    subprocess_run_calls [of sys "[py ''git'', py ''checkout'', py ''-b'', b]" "repo_path s" s]
  by (auto simp: create_branch_def split: prod.splits sum.splits)

lemma delete_branch_calls:
  assumes "currentText (delete_branch_combo s) = d" and "d \<noteq> []"
  shows "calls (final (delete_branch sys s)) =
           calls s @ [([py ''git'', py ''branch'', py ''-d'', d], repo_path s)]"
  using assms
    subprocess_run_calls [of sys "[py ''git'', py ''branch'', py ''-d'', d]" "repo_path s" s]
  by (auto simp: delete_branch_def split: prod.splits sum.splits)

lemma rename_branch_calls:
  assumes "py_strip (currentText (rename_branch_combo s)) = old" and "old \<noteq> []"
      and "py_strip (new_branch_name_edit s) = new" and "new \<noteq> []"
  shows "calls (final (rename_branch sys s)) =
           calls s @ [([py ''git'', py ''branch'', py ''-m'', old, new], repo_path s)]"
  using assms
    subprocess_run_calls [of sys "[py ''git'', py ''branch'', py ''-m'', old, new]" "repo_path s" s]
  by (auto simp: rename_branch_def split: prod.splits sum.splits)

lemma add_remote_calls:
  assumes "py_strip (remote_url_lineedit s) = url" and "url \<noteq> []"
  shows "calls (final (add_remote sys s)) =
           calls s @ [([py ''git'', py ''remote'', py ''add'', py ''origin'', url], repo_path s)]"
  using assms
    subprocess_run_calls [of sys "[py ''git'', py ''remote'', py ''add'', py ''origin'', url]"
      "repo_path s" s]
  by (auto simp: add_remote_def split: prod.splits sum.splits)

lemma add_remote_custom_calls:
  assumes "py_strip (remote_name s) = n" and "n \<noteq> []"
      and "py_strip (remote_url s) = u" and "u \<noteq> []"
  shows "calls (final (add_remote_custom sys s)) =
           calls s @ [([py ''git'', py ''remote'', py ''add'', n, u], repo_path s)]"
  using assms
    subprocess_run_calls [of sys "[py ''git'', py ''remote'', py ''add'', n, u]" "repo_path s" s]
  by (auto simp: add_remote_custom_def split: prod.splits sum.splits)

lemma merge_checkout_raises:
  assumes "py_strip (currentText (merge_source_combo s)) = src" and "src \<noteq> []"
      and "py_strip (currentText (merge_target_combo s)) = tgt" and "tgt \<noteq> []"
      and "subprocess_run sys [py ''git'', py ''checkout'', tgt] (repo_path s) s = (Inl e, s1)"
  shows "handle_merge_branches sys s = except_CalledProcessError e s1"
  using assms by (simp add: handle_merge_branches_def)

lemma merge_merge_raises:
  assumes "py_strip (currentText (merge_source_combo s)) = src" and "src \<noteq> []"
      and "py_strip (currentText (merge_target_combo s)) = tgt" and "tgt \<noteq> []"
      and "subprocess_run sys [py ''git'', py ''checkout'', tgt] (repo_path s) s = (Inr r, s1)"
      and "subprocess_run sys [py ''git'', py ''merge'', src] (repo_path s) s1 = (Inl e, s2)"
  shows "handle_merge_branches sys s = except_CalledProcessError e s2"
  using assms subprocess_run_snd(4) [OF assms(5)]
  by (simp add: handle_merge_branches_def)

lemma refresh_branches_items:
  assumes "py_strip (repo_path s) \<noteq> []"
      and "subprocess_run sys [py ''git'', py ''branch'', py ''--list''] (repo_path s) s = (Inr r, s1)"
  shows "items (merge_source_combo (final (refresh_branches sys s))) =
           collect_branches [] (py_split_on 10 (stdout r))"
    and "items (merge_target_combo (final (refresh_branches sys s))) =
           collect_branches [] (py_split_on 10 (stdout r))"
    and "items (delete_branch_combo (final (refresh_branches sys s))) =
           collect_branches [] (py_split_on 10 (stdout r))"
    and "items (rename_branch_combo (final (refresh_branches sys s))) =
           collect_branches [] (py_split_on 10 (stdout r))"
    and "items (branch_for_push (final (refresh_branches sys s))) =
           collect_branches [] (py_split_on 10 (stdout r))"
  using assms by (simp_all add: refresh_branches_def Let_def items_addItems combo_clear_def)

lemma refresh_remotes_items:
  assumes "subprocess_run sys [py ''git'', py ''remote''] (repo_path s) s = (Inr r, s1)"
  shows "items (remote_list (final (refresh_remotes sys s))) = py_split (stdout r)"
proof -
  let ?s2 = "s1\<lparr>remote_list := addItems (py_split (stdout r)) (combo_clear (remote_list s1))\<rparr>"
  obtain res s3 where run2:
    "subprocess_run sys [py ''git'', py ''branch'', py ''--list''] (repo_path ?s2) ?s2 = (res, s3)"
    by (cases "subprocess_run sys [py ''git'', py ''branch'', py ''--list''] (repo_path ?s2) ?s2")
  have "remote_list s3 = remote_list ?s2"
    using subprocess_run_snd(6) [OF run2] .
  then have rl: "items (remote_list s3) = py_split (stdout r)"
    by (simp add: items_addItems combo_clear_def)
  show ?thesis
  proof (cases res)
    case (Inl e)
    then show ?thesis using assms run2 rl by (simp add: refresh_remotes_def Let_def)
  next
    case (Inr r2)
    then show ?thesis using assms run2 rl by (simp add: refresh_remotes_def Let_def)
  qed
qed

lemma refresh_remotes_branch_items:
  assumes "subprocess_run sys [py ''git'', py ''remote''] (repo_path s) s = (Inr r, s1)"
      and "subprocess_run sys [py ''git'', py ''branch'', py ''--list''] (repo_path s)
             (s1\<lparr>remote_list := addItems (py_split (stdout r)) (combo_clear (remote_list s1))\<rparr>)
           = (Inr r2, s3)"
  shows "items (branch_for_push (final (refresh_remotes sys s))) =
           collect_branches [] (py_split_on 10 (stdout r2))"
  using assms subprocess_run_snd(4) [OF assms(1)]
  by (simp add: refresh_remotes_def Let_def items_add_branch_lines combo_clear_def)

lemma execute_command_calls:
  "calls (final (execute_command sys s)) =
     (if py_strip (repo_path s) = [] then calls s
      else if startswith (py_strip (command_input s)) (py ''git'')
           then calls s @ [(py_split (py_strip (command_input s)), py_strip (repo_path s))]
           else calls s)"
  using subprocess_run_calls [of sys "py_split (py_strip (command_input s))"
          "py_strip (repo_path s)" s]
  by (auto simp: execute_command_def Let_def show_error_def
        split: prod.splits sum.splits py_exc.splits)

text \<open>
  What a missing working directory (its path free of null characters) does to each
  handler. All but two close with the one clause for \<open>CalledProcessError\<close>, so the
  \<open>OSError\<close> of the launch leaves them.
\<close>

lemma missing_directory_escapes:
  assumes "dir_exists sys (world s) (repo_path s) = False" and "0 \<notin> set (repo_path s)"
  shows "uncaught (git_init sys s) = Some (OSError (repo_path s))"
    and "uncaught (git_add sys s) = Some (OSError (repo_path s))"
    and "uncaught (git_push sys s) = Some (OSError (repo_path s))"
    and "uncaught (git_status sys s) = Some (OSError (repo_path s))"
    and "uncaught (git_pull sys s) = Some (OSError (repo_path s))"
    and "uncaught (git_fetch sys s) = Some (OSError (repo_path s))"
    and "uncaught (refresh_branch_history sys s) = Some (OSError (repo_path s))"
    and "uncaught (refresh_remotes sys s) = Some (OSError (repo_path s))"
    and "uncaught (change_branch sys s b) = Some (OSError (repo_path s))"
  using assms
  by (simp_all add: git_init_def git_add_def git_push_def git_status_def git_pull_def
        git_fetch_def refresh_branch_history_def refresh_remotes_def change_branch_def
        subprocess_run_missing)

lemma missing_directory_escapes_checked:
  assumes "dir_exists sys (world s) (repo_path s) = False" and "0 \<notin> set (repo_path s)"
  shows "py_strip (commit_msg s) \<noteq> [] \<Longrightarrow>
           uncaught (git_commit sys s) = Some (OSError (repo_path s))"
    and "py_strip (new_branch_name s) \<noteq> [] \<Longrightarrow>
           uncaught (create_branch sys s) = Some (OSError (repo_path s))"
    and "currentText (delete_branch_combo s) \<noteq> [] \<Longrightarrow>
           uncaught (delete_branch sys s) = Some (OSError (repo_path s))"
    and "py_strip (currentText (rename_branch_combo s)) \<noteq> [] \<Longrightarrow>
         py_strip (new_branch_name_edit s) \<noteq> [] \<Longrightarrow>
           uncaught (rename_branch sys s) = Some (OSError (repo_path s))"
    and "py_strip (currentText (merge_source_combo s)) \<noteq> [] \<Longrightarrow>
         py_strip (currentText (merge_target_combo s)) \<noteq> [] \<Longrightarrow>
           uncaught (handle_merge_branches sys s) = Some (OSError (repo_path s))"
    and "py_strip (remote_url_lineedit s) \<noteq> [] \<Longrightarrow>
           uncaught (add_remote sys s) = Some (OSError (repo_path s))"
    and "py_strip (remote_name s) \<noteq> [] \<Longrightarrow> py_strip (remote_url s) \<noteq> [] \<Longrightarrow>
           uncaught (add_remote_custom sys s) = Some (OSError (repo_path s))"
    and "py_strip (currentText (branch_for_push s)) \<noteq> [] \<Longrightarrow>
           uncaught (git_push_advanced sys s) = Some (OSError (repo_path s))"
  using assms
  by (simp_all add: git_commit_def create_branch_def delete_branch_def rename_branch_def
        handle_merge_branches_def add_remote_def add_remote_custom_def git_push_advanced_def
        subprocess_run_missing Let_def)

text \<open>
  \<open>execute_command\<close> and \<open>refresh_branches\<close> catch every \<open>Exception\<close>: they always
  return, and \<open>execute_command\<close> shows the \<open>OSError\<close> of a missing directory.
\<close>

lemma execute_command_returns: "uncaught (execute_command sys s) = None"
  by (simp add: execute_command_def Let_def)

lemma refresh_branches_returns: "uncaught (refresh_branches sys s) = None"
  by (simp add: refresh_branches_def Let_def split: prod.splits sum.splits py_exc.splits)

lemma execute_command_missing_directory:
  assumes "py_strip (repo_path s) \<noteq> []"
      and "startswith (py_strip (command_input s)) (py ''git'')"
      and "dir_exists sys (world s) (py_strip (repo_path s)) = False"
      and "0 \<notin> set (py_strip (repo_path s))"
  shows "execute_command sys s =
           Returned (s\<lparr>command_input := [],
             errors := errors s @
               [StrOf (py ''System error: '') (OSError (py_strip (repo_path s)))],
             calls := calls s @
               [(py_split (py_strip (command_input s)), py_strip (repo_path s))]\<rparr>)"
  using assms startswith_git_split [OF assms(2)]
  by (simp add: execute_command_def Let_def subprocess_run_missing show_error_def)

section \<open>The claims\<close>

text \<open>
  Claim C1 says that every command whose working directory does not exist reports an
  error and never ends with an uncaught exception. \<open>git_init\<close> on the path
  \<open>/no/such/dir\<close>, which does not exist on the example machine: \<open>subprocess.run\<close> is
  called once, its \<open>OSError\<close> passes the clause for \<open>CalledProcessError\<close> and leaves the
  handler; no error dialog is shown.
\<close>

theorem git_init_missing_directory:
  "git_init demo_os (window (py ''/no/such/dir'')) =
     Raised (OSError (py ''/no/such/dir''))
       ((window (py ''/no/such/dir''))
          \<lparr>calls := [([py ''git'', py ''init''], py ''/no/such/dir'')]\<rparr>)"
  by (simp add: git_init_def subprocess_run_def demo_os_def window_def py_def)

text \<open>
  Claim C2 says that a terminal command is rejected unless its first token is \<open>git\<close>.
  The check is \<open>command.startswith("git")\<close> on the stripped text: for the input
  \<open>gitx --version\<close> the first token is \<open>gitx\<close>, no error is shown, and the program
  \<open>gitx\<close> is started with the argument \<open>--version\<close>.
\<close>

theorem execute_command_accepts_gitx:
  "hd (py_split (py ''gitx --version'')) = py ''gitx'' \<and>
   execute_command demo_os ((window (py ''/repo''))\<lparr>command_input := py ''gitx --version''\<rparr>) =
     Returned ((window (py ''/repo''))
       \<lparr>terminal_output := [py ''$ gitx --version\<newline>''],
        calls := [([py ''gitx'', py ''--version''], py ''/repo'')]\<rparr>)"
proof -
  have sp: "py_split (py ''gitx --version'') = [py ''gitx'', py ''--version'']"
    by (simp add: py_split.simps str_defs)
  have st: "py_strip (py ''gitx --version'') = py ''gitx --version''"
    by (simp add: str_defs)
  have sr: "py_strip (py ''/repo'') = py ''/repo''"
    by (simp add: str_defs)
  have sw: "startswith (py ''gitx --version'') (py ''git'')"
    by (simp add: str_defs)
  show ?thesis
    by (simp add: execute_command_def run_defs py_def
          sp [unfolded py_def, simplified] st [unfolded py_def, simplified]
          sr [unfolded py_def, simplified] sw [unfolded py_def, simplified])
qed

text \<open>
  Claim C3: in \<open>handle_merge_branches\<close>, with both branches selected, when the call of
  \<open>checkout\<close> raises, the call of \<open>merge\<close> is never made (the only call recorded is the
  checkout) and the exception shown is the one of the checkout: a \<open>CalledProcessError\<close>
  names the checkout command and is shown in the error dialog; any other exception of
  the checkout leaves the handler as it is. When the checkout succeeds and the merge
  raises, both calls are recorded, no success is reported (status label and output are
  unchanged), and the exception of the merge is shown in the dialog or leaves the handler:
  it is never swallowed.
\<close>

theorem merge_failure_surfaced:
  assumes "py_strip (currentText (merge_source_combo s)) = src" and "src \<noteq> []"
      and "py_strip (currentText (merge_target_combo s)) = tgt" and "tgt \<noteq> []"
  shows
    "(\<forall>e s1. subprocess_run sys [py ''git'', py ''checkout'', tgt] (repo_path s) s = (Inl e, s1) \<longrightarrow>
        calls (final (handle_merge_branches sys s)) =
          calls s @ [([py ''git'', py ''checkout'', tgt], repo_path s)] \<and>
        (\<forall>rc cmd out err. e = CalledProcessError rc cmd out err \<longrightarrow>
           cmd = [py ''git'', py ''checkout'', tgt] \<and>
           handle_merge_branches sys s = Returned (s1\<lparr>errors := errors s @ [StrOf [] e]\<rparr>)) \<and>
        ((\<forall>rc cmd out err. e \<noteq> CalledProcessError rc cmd out err) \<longrightarrow>
           handle_merge_branches sys s = Raised e s1)) \<and>
     (\<forall>r s1 e s2.
        subprocess_run sys [py ''git'', py ''checkout'', tgt] (repo_path s) s = (Inr r, s1) \<and>
        subprocess_run sys [py ''git'', py ''merge'', src] (repo_path s) s1 = (Inl e, s2) \<longrightarrow>
        calls (final (handle_merge_branches sys s)) =
          calls s @ [([py ''git'', py ''checkout'', tgt], repo_path s),
                     ([py ''git'', py ''merge'', src], repo_path s)] \<and>
        status_label (final (handle_merge_branches sys s)) = status_label s \<and>
        advanced_output (final (handle_merge_branches sys s)) = advanced_output s \<and>
        (\<forall>rc cmd out err. e = CalledProcessError rc cmd out err \<longrightarrow>
           cmd = [py ''git'', py ''merge'', src] \<and>
           handle_merge_branches sys s = Returned (s2\<lparr>errors := errors s @ [StrOf [] e]\<rparr>)) \<and>
        ((\<forall>rc cmd out err. e \<noteq> CalledProcessError rc cmd out err) \<longrightarrow>
           handle_merge_branches sys s = Raised e s2))"
proof (intro conjI allI impI)
  fix e s1
  assume run: "subprocess_run sys [py ''git'', py ''checkout'', tgt] (repo_path s) s = (Inl e, s1)"
  note out = merge_checkout_raises [OF assms run]
  show "calls (final (handle_merge_branches sys s)) =
          calls s @ [([py ''git'', py ''checkout'', tgt], repo_path s)]"
    using out subprocess_run_snd(1) [OF run] by simp
  show "handle_merge_branches sys s = Raised e s1"
    if "\<forall>rc cmd out err. e \<noteq> CalledProcessError rc cmd out err"
    using out except_other [OF that] by simp
  fix rc cmd out' err
  assume e: "e = CalledProcessError rc cmd out' err"
  show "cmd = [py ''git'', py ''checkout'', tgt]"
    using run e subprocess_run_CalledProcessError by blast
  show "handle_merge_branches sys s = Returned (s1\<lparr>errors := errors s @ [StrOf [] e]\<rparr>)"
    using out except_CalledProcessError_shown [OF e, of s1] subprocess_run_snd(2) [OF run]
    by simp
next
  fix r s1 e s2
  assume both:
    "subprocess_run sys [py ''git'', py ''checkout'', tgt] (repo_path s) s = (Inr r, s1) \<and>
     subprocess_run sys [py ''git'', py ''merge'', src] (repo_path s) s1 = (Inl e, s2)"
  then have run1: "subprocess_run sys [py ''git'', py ''checkout'', tgt] (repo_path s) s = (Inr r, s1)"
    and run2: "subprocess_run sys [py ''git'', py ''merge'', src] (repo_path s) s1 = (Inl e, s2)"
    by simp_all
  note out = merge_merge_raises [OF assms run1 run2]
  show "calls (final (handle_merge_branches sys s)) =
          calls s @ [([py ''git'', py ''checkout'', tgt], repo_path s),
                     ([py ''git'', py ''merge'', src], repo_path s)]"
    using out subprocess_run_snd(1) [OF run1] subprocess_run_snd(1) [OF run2] by simp
  show "status_label (final (handle_merge_branches sys s)) = status_label s"
    using out subprocess_run_snd(3) [OF run1] subprocess_run_snd(3) [OF run2] by simp
  show "advanced_output (final (handle_merge_branches sys s)) = advanced_output s"
    using out subprocess_run_snd(5) [OF run1] subprocess_run_snd(5) [OF run2] by simp
  show "handle_merge_branches sys s = Raised e s2"
    if "\<forall>rc cmd out err. e \<noteq> CalledProcessError rc cmd out err"
    using out except_other [OF that] by simp
  fix rc cmd out' err
  assume e: "e = CalledProcessError rc cmd out' err"
  show "cmd = [py ''git'', py ''merge'', src]"
    using run2 e subprocess_run_CalledProcessError by blast
  show "handle_merge_branches sys s = Returned (s2\<lparr>errors := errors s @ [StrOf [] e]\<rparr>)"
    using out except_CalledProcessError_shown [OF e, of s2]
      subprocess_run_snd(2) [OF run1] subprocess_run_snd(2) [OF run2]
    by simp
qed

text \<open>
  Claim C3, on the example machine: a checkout of the missing branch \<open>release\<close> fails, no
  merge is called and the dialog shows the checkout's error; with the target \<open>develop\<close>
  and the missing source \<open>feature\<close> the checkout runs, the merge fails and the dialog shows
  the merge's error.
\<close>

theorem merge_failure_surfaced_witness:
  "handle_merge_branches demo_os (merge_window (py ''develop'') (py ''release'')) =
     Returned ((merge_window (py ''develop'') (py ''release''))
       \<lparr>errors := [StrOf [] (CalledProcessError 1
                     [py ''git'', py ''checkout'', py ''release''] [] [])],
        calls := [([py ''git'', py ''checkout'', py ''release''], py ''/repo'')]\<rparr>) \<and>
   handle_merge_branches demo_os (merge_window (py ''feature'') (py ''develop'')) =
     Returned ((merge_window (py ''feature'') (py ''develop''))
       \<lparr>errors := [StrOf [] (CalledProcessError 1
                     [py ''git'', py ''merge'', py ''feature''] [] [])],
        calls := [([py ''git'', py ''checkout'', py ''develop''], py ''/repo''),
                  ([py ''git'', py ''merge'', py ''feature''], py ''/repo'')]\<rparr>)"
proof -
  let ?a = "merge_window (py ''develop'') (py ''release'')"
  let ?a1 = "?a\<lparr>calls := [([py ''git'', py ''checkout'', py ''release''], py ''/repo'')]\<rparr>"
  let ?ea = "CalledProcessError 1 [py ''git'', py ''checkout'', py ''release''] [] []"
  have a1: "py_strip (currentText (merge_source_combo ?a)) = py ''develop''"
    and a2: "py_strip (currentText (merge_target_combo ?a)) = py ''release''"
    by (simp_all add: merge_window_def strip_develop strip_release)
  have a3: "py ''develop'' \<noteq> []" and a4: "py ''release'' \<noteq> []" and a5: "py ''feature'' \<noteq> []"
    by (simp_all add: py_def)
  have ra: "subprocess_run demo_os [py ''git'', py ''checkout'', py ''release''] (repo_path ?a) ?a
              = (Inl ?ea, ?a1)"
    by (simp add: merge_window_def run_defs py_def)
  have A: "handle_merge_branches demo_os ?a = Returned (?a1\<lparr>errors := errors ?a @ [StrOf [] ?ea]\<rparr>)"
    using merge_failure_surfaced [OF a1 a3 a2 a4, of demo_os] ra by blast
  let ?b = "merge_window (py ''feature'') (py ''develop'')"
  let ?b1 = "?b\<lparr>calls := [([py ''git'', py ''checkout'', py ''develop''], py ''/repo'')]\<rparr>"
  let ?b2 = "?b\<lparr>calls := [([py ''git'', py ''checkout'', py ''develop''], py ''/repo''),
                  ([py ''git'', py ''merge'', py ''feature''], py ''/repo'')]\<rparr>"
  let ?eb = "CalledProcessError 1 [py ''git'', py ''merge'', py ''feature''] [] []"
  have b1: "py_strip (currentText (merge_source_combo ?b)) = py ''feature''"
    and b2: "py_strip (currentText (merge_target_combo ?b)) = py ''develop''"
    by (simp_all add: merge_window_def strip_develop strip_feature)
  have rb1: "subprocess_run demo_os [py ''git'', py ''checkout'', py ''develop''] (repo_path ?b) ?b
              = (Inr (exited 0), ?b1)"
    by (simp add: merge_window_def run_defs py_def)
  have rb2: "subprocess_run demo_os [py ''git'', py ''merge'', py ''feature''] (repo_path ?b) ?b1
              = (Inl ?eb, ?b2)"
    by (simp add: merge_window_def run_defs py_def)
  have B: "handle_merge_branches demo_os ?b = Returned (?b2\<lparr>errors := errors ?b @ [StrOf [] ?eb]\<rparr>)"
    using merge_failure_surfaced [OF b1 a5 b2 a3, of demo_os] rb1 rb2 by blast
  show ?thesis
    using A B by (simp add: merge_window_def window_def)
qed

text \<open>
  Claim C4 says that \<open>change_branch\<close> falls back to a plain \<open>checkout\<close> when
  \<open>checkout -b\<close> fails. With \<open>check=True\<close> a failing \<open>checkout -b\<close> raises, so the test
  \<open>result.returncode != 0\<close> is never true (\<open>subprocess_run_Inr\<close>) and the only call ever
  made is \<open>checkout -b\<close> (\<open>change_branch_calls\<close>). For the existing branch \<open>develop\<close>, on
  the example machine: \<open>checkout -b develop\<close> ends with code 128, the error dialog shows
  it, and no \<open>checkout develop\<close> follows.
\<close>

theorem change_branch_existing_branch:
  "change_branch demo_os (window (py ''/repo'')) (py ''develop'') =
     Returned ((window (py ''/repo''))
       \<lparr>current_branch := py ''develop'',
        errors := [StrOf [] (CalledProcessError 128
                     [py ''git'', py ''checkout'', py ''-b'', py ''develop''] [] [])],
        calls := [([py ''git'', py ''checkout'', py ''-b'', py ''develop''], py ''/repo'')]\<rparr>)"
  by (simp add: change_branch_def window_def subprocess_run_def demo_os_def
        demo_spawn_def exited_def show_error_def)

text \<open>
  Claim C5: for every machine, window and branch name \<open>b\<close>, after \<open>change_branch\<close> the
  attribute \<open>current_branch\<close> is \<open>b\<close>, whether the checkout succeeded, failed with an
  error dialog or raised an exception that left the handler; and \<open>git_push\<close> on the
  window it leaves calls \<open>git push origin b\<close> in the same directory, right after the one
  \<open>checkout -b\<close> call.
\<close>

theorem change_branch_sets_current_branch:
  "current_branch (final (change_branch sys s b)) = b \<and>
   calls (final (git_push sys (final (change_branch sys s b)))) =
     calls s @ [([py ''git'', py ''checkout'', py ''-b'', b], repo_path s),
                ([py ''git'', py ''push'', py ''origin'', b], repo_path s)]"
  by (simp add: git_push_calls change_branch_calls change_branch_frame)

text \<open>
  Claim C5, on the example machine: \<open>checkout -b develop\<close> fails since \<open>develop\<close> exists,
  the error is shown, \<open>current_branch\<close> is \<open>develop\<close> all the same, and the push that
  follows names \<open>develop\<close>.
\<close>

theorem change_branch_sets_current_branch_witness:
  "uncaught (change_branch demo_os (window (py ''/repo'')) (py ''develop'')) = None \<and>
   errors (final (change_branch demo_os (window (py ''/repo'')) (py ''develop''))) =
     [StrOf [] (CalledProcessError 128
        [py ''git'', py ''checkout'', py ''-b'', py ''develop''] [] [])] \<and>
   current_branch (final (change_branch demo_os (window (py ''/repo'')) (py ''develop''))) =
     py ''develop'' \<and>
   calls (final (git_push demo_os
     (final (change_branch demo_os (window (py ''/repo'')) (py ''develop''))))) =
     [([py ''git'', py ''checkout'', py ''-b'', py ''develop''], py ''/repo''),
      ([py ''git'', py ''push'', py ''origin'', py ''develop''], py ''/repo'')]"
proof -
  have e: "change_branch demo_os (window (py ''/repo'')) (py ''develop'') =
     Returned ((window (py ''/repo''))
       \<lparr>current_branch := py ''develop'',
        errors := [StrOf [] (CalledProcessError 128
                     [py ''git'', py ''checkout'', py ''-b'', py ''develop''] [] [])],
        calls := [([py ''git'', py ''checkout'', py ''-b'', py ''develop''], py ''/repo'')]\<rparr>)"
    by (simp add: change_branch_def run_defs py_def)
  have w: "calls (window (py ''/repo'')) = [] \<and> repo_path (window (py ''/repo'')) = py ''/repo''"
    by (simp add: window_def)
  show ?thesis
    using change_branch_sets_current_branch [of demo_os "window (py ''/repo'')" "py ''develop''"] w
    by (simp add: e)
qed

text \<open>
  Claim C6: on every \<open>branch --list\<close> output, that is, a text in which a \<open>*\<close> stands only
  as the marker at the start of a line (no branch name can hold a \<open>*\<close>), the loop over
  \<open>stdout.split('\n')\<close> returns the list in the specification's wording: in order, every
  line with its leading \<open>*\<close> marker and the surrounding whitespace stripped, empty lines
  discarded. The lines are the pieces between the newlines: none contains a newline, and
  joined by newlines they give the text back. The loop of \<open>refresh_remotes\<close> puts the same
  list into its combo box, and \<open>refresh_branches\<close> puts it into each of its five combo
  boxes. On \<open>"* main\n  develop\n  feature/x\n"\<close> the result is \<open>main\<close>, \<open>develop\<close>,
  \<open>feature/x\<close>.
\<close>

theorem branch_list_parsing:
  assumes "\<forall>line\<in>set (py_split_on 10 raw). 42 \<notin> set (spec_strip_marker (py_strip line))"
  shows
    "collect_branches [] (py_split_on 10 raw) = spec_branch_list raw \<and>
     (\<forall>line\<in>set (py_split_on 10 raw). 10 \<notin> set line) \<and>
     concat (map (\<lambda>line. line @ [10]) (py_split_on 10 raw)) = raw @ [10] \<and>
     items (add_branch_lines (py_split_on 10 raw) (combo_clear c)) = spec_branch_list raw \<and>
     (\<forall>r s1. py_strip (repo_path s) \<noteq> [] \<and>
        subprocess_run sys [py ''git'', py ''branch'', py ''--list''] (repo_path s) s = (Inr r, s1) \<and>
        stdout r = raw \<longrightarrow>
        items (merge_source_combo (final (refresh_branches sys s))) = spec_branch_list raw \<and>
        items (merge_target_combo (final (refresh_branches sys s))) = spec_branch_list raw \<and>
        items (delete_branch_combo (final (refresh_branches sys s))) = spec_branch_list raw \<and>
        items (rename_branch_combo (final (refresh_branches sys s))) = spec_branch_list raw \<and>
        items (branch_for_push (final (refresh_branches sys s))) = spec_branch_list raw) \<and>
     collect_branches [] (py_split_on 10 (py ''* main\<newline>  develop\<newline>  feature/x\<newline>'')) =
       [py ''main'', py ''develop'', py ''feature/x'']"
proof (intro conjI)
  note agree = spec_branch_list_agrees [OF assms]
  show "collect_branches [] (py_split_on 10 raw) = spec_branch_list raw"
    by (rule agree)
  show "\<forall>line\<in>set (py_split_on 10 raw). 10 \<notin> set line"
    by (rule py_split_on_no_sep)
  show "concat (map (\<lambda>line. line @ [10]) (py_split_on 10 raw)) = raw @ [10]"
    by (rule py_split_on_join)
  show "items (add_branch_lines (py_split_on 10 raw) (combo_clear c)) = spec_branch_list raw"
    using agree by (simp add: items_add_branch_lines combo_clear_def)
  show "\<forall>r s1. py_strip (repo_path s) \<noteq> [] \<and>
        subprocess_run sys [py ''git'', py ''branch'', py ''--list''] (repo_path s) s = (Inr r, s1) \<and>
        stdout r = raw \<longrightarrow>
        items (merge_source_combo (final (refresh_branches sys s))) = spec_branch_list raw \<and>
        items (merge_target_combo (final (refresh_branches sys s))) = spec_branch_list raw \<and>
        items (delete_branch_combo (final (refresh_branches sys s))) = spec_branch_list raw \<and>
        items (rename_branch_combo (final (refresh_branches sys s))) = spec_branch_list raw \<and>
        items (branch_for_push (final (refresh_branches sys s))) = spec_branch_list raw"
  proof (intro allI impI)
    fix r s1
    assume h: "py_strip (repo_path s) \<noteq> [] \<and>
        subprocess_run sys [py ''git'', py ''branch'', py ''--list''] (repo_path s) s = (Inr r, s1) \<and>
        stdout r = raw"
    then have p: "py_strip (repo_path s) \<noteq> []"
      and run: "subprocess_run sys [py ''git'', py ''branch'', py ''--list''] (repo_path s) s
                  = (Inr r, s1)"
      and out: "stdout r = raw"
      by simp_all
    show "items (merge_source_combo (final (refresh_branches sys s))) = spec_branch_list raw \<and>
        items (merge_target_combo (final (refresh_branches sys s))) = spec_branch_list raw \<and>
        items (delete_branch_combo (final (refresh_branches sys s))) = spec_branch_list raw \<and>
        items (rename_branch_combo (final (refresh_branches sys s))) = spec_branch_list raw \<and>
        items (branch_for_push (final (refresh_branches sys s))) = spec_branch_list raw"
      using refresh_branches_items [OF p run] agree out by simp
  qed
  show "collect_branches [] (py_split_on 10 (py ''* main\<newline>  develop\<newline>  feature/x\<newline>'')) =
       [py ''main'', py ''develop'', py ''feature/x'']"
    by (rule example_branch_list)
qed

text \<open>
  Claim C6, on concrete texts: in the text of the claim every line is free of \<open>*\<close> once
  its marker is stripped, and the specification's wording and the code give \<open>main\<close>,
  \<open>develop\<close>, \<open>feature/x\<close>; on the example machine \<open>refresh_branches\<close> puts the branches
  of its output into the combo boxes.
\<close>

theorem branch_list_parsing_witness:
  "map (\<lambda>line. spec_strip_marker (py_strip line))
     (py_split_on 10 (py ''* main\<newline>  develop\<newline>  feature/x\<newline>'')) =
     [py '' main'', py ''develop'', py ''feature/x'', []] \<and>
   spec_branch_list (py ''* main\<newline>  develop\<newline>  feature/x\<newline>'') =
     [py ''main'', py ''develop'', py ''feature/x''] \<and>
   collect_branches [] (py_split_on 10 (py ''* main\<newline>  develop\<newline>  feature/x\<newline>'')) =
     spec_branch_list (py ''* main\<newline>  develop\<newline>  feature/x\<newline>'') \<and>
   items (merge_source_combo (final (refresh_branches demo_os (window (py ''/repo''))))) =
     [py ''main'', py ''develop''] \<and>
   items (branch_for_push (final (refresh_branches demo_os (window (py ''/repo''))))) =
     [py ''main'', py ''develop'']"
proof -
  let ?x = "py ''* main\<newline>  develop\<newline>  feature/x\<newline>''"
  let ?y = "py ''* main\<newline>  develop\<newline>''"
  have mx: "map (\<lambda>line. spec_strip_marker (py_strip line)) (py_split_on 10 ?x) =
              [py '' main'', py ''develop'', py ''feature/x'', []]"
    by (simp add: spec_strip_marker_def str_defs)
  have hx: "\<forall>line\<in>set (py_split_on 10 ?x). 42 \<notin> set (spec_strip_marker (py_strip line))"
    by (simp add: spec_strip_marker_def str_defs)
  have hy: "\<forall>line\<in>set (py_split_on 10 ?y). 42 \<notin> set (spec_strip_marker (py_strip line))"
    by (simp add: spec_strip_marker_def str_defs)
  have vy: "spec_branch_list ?y = [py ''main'', py ''develop'']"
    by (simp add: spec_branch_list_def spec_strip_marker_def str_defs)
  have p: "py_strip (repo_path (window (py ''/repo''))) \<noteq> []"
    by (simp add: window_def str_defs)
  have r: "subprocess_run demo_os [py ''git'', py ''branch'', py ''--list'']
             (repo_path (window (py ''/repo''))) (window (py ''/repo'')) =
           (Inr (printed ?y),
            (window (py ''/repo''))\<lparr>calls := [([py ''git'', py ''branch'', py ''--list''], py ''/repo'')]\<rparr>)"
    by (simp add: run_defs py_def)
  have o: "stdout (printed ?y) = ?y"
    by (simp add: printed_def)
  note tx = branch_list_parsing [OF hx, of "\<lparr>items = [], currentText = [], placeholderText = []\<rparr>"
              "window (py ''/repo'')" demo_os]
  note ty = branch_list_parsing [OF hy, of "\<lparr>items = [], currentText = [], placeholderText = []\<rparr>"
              "window (py ''/repo'')" demo_os]
  from tx have cx: "collect_branches [] (py_split_on 10 ?x) = spec_branch_list ?x"
    and ex: "collect_branches [] (py_split_on 10 ?x) = [py ''main'', py ''develop'', py ''feature/x'']"
    by blast+
  from ty p r o
  have "items (merge_source_combo (final (refresh_branches demo_os (window (py ''/repo''))))) =
          spec_branch_list ?y \<and>
        items (branch_for_push (final (refresh_branches demo_os (window (py ''/repo''))))) =
          spec_branch_list ?y"
    by blast
  then show ?thesis using mx cx ex vy by simp
qed

text \<open>
  Claim C7: \<open>stdout.split()\<close> returns the whitespace-separated tokens in order. Every
  token is non-empty and free of whitespace; the tokens concatenated are the text without
  its whitespace; the four equations for the empty text, a leading whitespace character,
  a single token, and a token followed by whitespace determine the result on every text.
  \<open>refresh_remotes\<close> fills \<open>remote_list\<close> with exactly these tokens whenever \<open>git remote\<close>
  succeeds. On \<open>"origin upstream\n"\<close> the result is \<open>origin\<close>, \<open>upstream\<close>.
\<close>

theorem remote_list_parsing:
  "(\<forall>t\<in>set (py_split raw). t \<noteq> [] \<and> (\<forall>c\<in>set t. \<not> is_space c)) \<and>
   concat (py_split raw) = filter is_nonspace raw \<and>
   py_split [] = [] \<and>
   (is_space x \<longrightarrow> py_split (x # rest) = py_split rest) \<and>
   (tok \<noteq> [] \<and> (\<forall>c\<in>set tok. \<not> is_space c) \<longrightarrow>
      py_split tok = [tok] \<and>
      (is_space x \<longrightarrow> py_split (tok @ x # rest) = tok # py_split rest)) \<and>
   (\<forall>r s1. subprocess_run sys [py ''git'', py ''remote''] (repo_path s) s = (Inr r, s1) \<longrightarrow>
      items (remote_list (final (refresh_remotes sys s))) = py_split (stdout r)) \<and>
   py_split (py ''origin upstream\<newline>'') = [py ''origin'', py ''upstream'']"
proof (intro conjI)
  show "\<forall>t\<in>set (py_split raw). t \<noteq> [] \<and> (\<forall>c\<in>set t. \<not> is_space c)"
    by (rule py_split_tokens)
  show "concat (py_split raw) = filter is_nonspace raw"
    by (rule py_split_concat)
  show "py_split [] = []"
    by (rule py_split_Nil)
  show "is_space x \<longrightarrow> py_split (x # rest) = py_split rest"
    by (simp add: py_split_space)
  show "tok \<noteq> [] \<and> (\<forall>c\<in>set tok. \<not> is_space c) \<longrightarrow>
      py_split tok = [tok] \<and>
      (is_space x \<longrightarrow> py_split (tok @ x # rest) = tok # py_split rest)"
    using py_split_single [of tok] py_split_token [of tok x rest] by blast
  show "\<forall>r s1. subprocess_run sys [py ''git'', py ''remote''] (repo_path s) s = (Inr r, s1) \<longrightarrow>
      items (remote_list (final (refresh_remotes sys s))) = py_split (stdout r)"
    using refresh_remotes_items by blast
  show "py_split (py ''origin upstream\<newline>'') = [py ''origin'', py ''upstream'']"
    by (rule example_remote_list)
qed

text \<open>
  Claim C7, on concrete input: a tab (code point 9) after the token \<open>origin\<close> separates
  it from the rest, and on the example machine \<open>refresh_remotes\<close> lists the one remote.
\<close>

theorem remote_list_parsing_witness:
  "is_space 9 \<and>
   py_split (py ''origin'' @ 9 # py '' upstream '') = [py ''origin'', py ''upstream''] \<and>
   items (remote_list (final (refresh_remotes demo_os (window (py ''/repo''))))) = [py ''origin'']"
proof -
  have sp: "is_space 9" by (simp add: is_space_def)
  have tk: "py ''origin'' \<noteq> [] \<and> (\<forall>c\<in>set (py ''origin''). \<not> is_space c)"
    by (simp add: str_defs)
  have rest: "py_split (py '' upstream '') = [py ''upstream'']"
    by (simp add: py_split.simps str_defs)
  have r: "subprocess_run demo_os [py ''git'', py ''remote'']
             (repo_path (window (py ''/repo''))) (window (py ''/repo'')) =
           (Inr (printed (py ''origin\<newline>'')),
            (window (py ''/repo''))\<lparr>calls := [([py ''git'', py ''remote''], py ''/repo'')]\<rparr>)"
    by (simp add: run_defs py_def)
  have o: "py_split (py ''origin\<newline>'') = [py ''origin'']"
    by (simp add: py_split.simps str_defs)
  note t = remote_list_parsing [of "py ''origin''" 9 "py '' upstream ''" "py ''origin''"
             demo_os "window (py ''/repo'')"]
  from t sp tk have "py_split (py ''origin'' @ 9 # py '' upstream '') = py ''origin'' # py_split (py '' upstream '')"
    by blast
  moreover from t r
  have "items (remote_list (final (refresh_remotes demo_os (window (py ''/repo''))))) =
          py_split (stdout (printed (py ''origin\<newline>'')))"
    by blast
  ultimately show ?thesis using sp rest o by (simp add: printed_def)
qed

text \<open>
  Claim C8: when the commit message is empty after stripping, \<open>git_commit\<close> shows the
  error \<open>Please enter a commit message\<close> and returns: the window is otherwise unchanged,
  \<open>subprocess.run\<close> is not called and the machine is untouched.
\<close>

theorem commit_empty_message_rejected:
  assumes "py_strip (commit_msg s) = []"
  shows "git_commit sys s =
           Returned (s\<lparr>errors := errors s @ [Plain (py ''Please enter a commit message'')]\<rparr>) \<and>
         calls (final (git_commit sys s)) = calls s \<and>
         world (final (git_commit sys s)) = world s"
  using assms by (simp add: git_commit_def show_error_def)

text \<open>
  Claim C8, for a message of three spaces.
\<close>

theorem commit_empty_message_rejected_witness:
  "py_strip (py ''   '') = [] \<and>
   git_commit demo_os ((window (py ''/repo''))\<lparr>commit_msg := py ''   ''\<rparr>) =
     Returned ((window (py ''/repo''))
       \<lparr>commit_msg := py ''   '',
        errors := [Plain (py ''Please enter a commit message'')]\<rparr>) \<and>
   calls (final (git_commit demo_os ((window (py ''/repo''))\<lparr>commit_msg := py ''   ''\<rparr>))) = []"
proof -
  have h: "py_strip (commit_msg ((window (py ''/repo''))\<lparr>commit_msg := py ''   ''\<rparr>)) = []"
    by (simp add: str_defs)
  have s: "py_strip (py ''   '') = []" by (simp add: str_defs)
  show ?thesis
    using commit_empty_message_rejected [OF h, of demo_os] s
    by (simp add: window_def)
qed

text \<open>
  Claim C9: with a non-empty branch \<open>b\<close> read (stripped) from the combo box,
  \<open>git_push_advanced\<close> makes exactly one call, \<open>git push origin b\<close> when the force box is
  not checked and \<open>git push origin --force b\<close> when it is. A branch selected from a parsed
  branch list is passed as it is, since stripping leaves it unchanged. The basic
  \<open>git_push\<close> calls \<open>git push origin\<close> with the stored current branch.
\<close>

theorem push_argument_vector:
  assumes "py_strip (currentText (branch_for_push s)) = b" and "b \<noteq> []"
  shows
    "(\<not> force_push s \<longrightarrow>
        calls (final (git_push_advanced sys s)) =
          calls s @ [([py ''git'', py ''push'', py ''origin'', b], repo_path s)]) \<and>
     (force_push s \<longrightarrow>
        calls (final (git_push_advanced sys s)) =
          calls s @ [([py ''git'', py ''push'', py ''origin'', py ''--force'', b], repo_path s)]) \<and>
     (currentText (branch_for_push s) \<in> set (collect_branches [] ls) \<longrightarrow>
        b = currentText (branch_for_push s)) \<and>
     calls (final (git_push sys s)) =
       calls s @ [([py ''git'', py ''push'', py ''origin'', current_branch s], repo_path s)]"
  using git_push_advanced_calls [OF assms, of sys] git_push_calls [of sys s]
    collect_branches_stripped [of ls] assms(1)
  by auto

text \<open>
  Claim C9, on the example machine, for the branch \<open>develop\<close> without and with the force
  box.
\<close>

theorem push_argument_vector_witness:
  "calls (final (git_push_advanced demo_os (push_window (py ''develop'') False))) =
     [([py ''git'', py ''push'', py ''origin'', py ''develop''], py ''/repo'')] \<and>
   calls (final (git_push_advanced demo_os (push_window (py ''develop'') True))) =
     [([py ''git'', py ''push'', py ''origin'', py ''--force'', py ''develop''], py ''/repo'')]"
proof -
  have b: "py ''develop'' \<noteq> []" by (simp add: py_def)
  have s: "py_strip (currentText (branch_for_push (push_window (py ''develop'') f))) = py ''develop''"
    for f by (simp add: push_window_def strip_develop)
  have "calls (final (git_push_advanced demo_os (push_window (py ''develop'') False))) =
     [([py ''git'', py ''push'', py ''origin'', py ''develop''], py ''/repo'')]"
    using push_argument_vector [OF s b, of False demo_os]
    by (simp add: push_window_def window_def)
  moreover have "calls (final (git_push_advanced demo_os (push_window (py ''develop'') True))) =
     [([py ''git'', py ''push'', py ''origin'', py ''--force'', py ''develop''], py ''/repo'')]"
    using push_argument_vector [OF s b, of True demo_os]
    by (simp add: push_window_def window_def)
  ultimately show ?thesis by simp
qed

text \<open>
  Claim C10: every handler that takes free text passes it (stripped) as one element of the
  argument vector of its one call of \<open>subprocess.run\<close>, which is given a list and no
  shell: the commit message, the new branch name, the branch to delete, the old and new
  name of a rename, the remote URL, the remote name and URL, the branch of the toolbar.
  The vector reaches the machine's \<open>spawn\<close> as it is.
\<close>

theorem free_text_single_argument:
  "(py_strip (commit_msg s) = m \<and> m \<noteq> [] \<longrightarrow>
      calls (final (git_commit sys s)) =
        calls s @ [([py ''git'', py ''commit'', py ''-m'', m], repo_path s)]) \<and>
   (py_strip (new_branch_name s) = b \<and> b \<noteq> [] \<longrightarrow>
      calls (final (create_branch sys s)) =
        calls s @ [([py ''git'', py ''checkout'', py ''-b'', b], repo_path s)]) \<and>
   (currentText (delete_branch_combo s) = d \<and> d \<noteq> [] \<longrightarrow>
      calls (final (delete_branch sys s)) =
        calls s @ [([py ''git'', py ''branch'', py ''-d'', d], repo_path s)]) \<and>
   (py_strip (currentText (rename_branch_combo s)) = old \<and> old \<noteq> [] \<and>
    py_strip (new_branch_name_edit s) = new \<and> new \<noteq> [] \<longrightarrow>
      calls (final (rename_branch sys s)) =
        calls s @ [([py ''git'', py ''branch'', py ''-m'', old, new], repo_path s)]) \<and>
   (py_strip (remote_url_lineedit s) = url \<and> url \<noteq> [] \<longrightarrow>
      calls (final (add_remote sys s)) =
        calls s @ [([py ''git'', py ''remote'', py ''add'', py ''origin'', url], repo_path s)]) \<and>
   (py_strip (remote_name s) = n \<and> n \<noteq> [] \<and> py_strip (remote_url s) = u \<and> u \<noteq> [] \<longrightarrow>
      calls (final (add_remote_custom sys s)) =
        calls s @ [([py ''git'', py ''remote'', py ''add'', n, u], repo_path s)]) \<and>
   calls (final (change_branch sys s x)) =
     calls s @ [([py ''git'', py ''checkout'', py ''-b'', x], repo_path s)] \<and>
   (args \<noteq> [] \<and> dir_exists sys (world s) cwd \<longrightarrow>
      world (snd (subprocess_run sys args cwd s)) = snd (spawn sys (world s) args cwd))"
  using git_commit_calls [of s m sys] create_branch_calls [of s b sys]
    delete_branch_calls [of s d sys] rename_branch_calls [of s old new sys]
    add_remote_calls [of s url sys] add_remote_custom_calls [of s n u sys]
    change_branch_calls [of sys s x] subprocess_run_spawn [of args sys s cwd]
  by blast

text \<open>
  Claim C10, on the example machine: the message \<open>; rm -rf /\<close> is the fourth element of
  the vector of \<open>git commit\<close>, and a remote name with a space in it and a URL with shell
  syntax are the fourth and fifth elements of \<open>git remote add\<close>.
\<close>

theorem free_text_single_argument_witness:
  "calls (final (git_commit demo_os ((window (py ''/repo''))\<lparr>commit_msg := py '' ; rm -rf / ''\<rparr>))) =
     [([py ''git'', py ''commit'', py ''-m'', py ''; rm -rf /''], py ''/repo'')] \<and>
   calls (final (add_remote_custom demo_os
     ((window (py ''/repo''))\<lparr>remote_name := py ''up stream'', remote_url := py ''$(reboot)''\<rparr>))) =
     [([py ''git'', py ''remote'', py ''add'', py ''up stream'', py ''$(reboot)''], py ''/repo'')]"
proof -
  let ?s = "(window (py ''/repo''))\<lparr>commit_msg := py '' ; rm -rf / ''\<rparr>"
  let ?r = "(window (py ''/repo''))\<lparr>remote_name := py ''up stream'', remote_url := py ''$(reboot)''\<rparr>"
  have m: "py_strip (commit_msg ?s) = py ''; rm -rf /'' \<and> py ''; rm -rf /'' \<noteq> []"
    by (simp add: str_defs)
  have r: "py_strip (remote_name ?r) = py ''up stream'' \<and> py ''up stream'' \<noteq> [] \<and>
           py_strip (remote_url ?r) = py ''$(reboot)'' \<and> py ''$(reboot)'' \<noteq> []"
    by (simp add: str_defs)
  have "calls (final (git_commit demo_os ?s)) =
          calls ?s @ [([py ''git'', py ''commit'', py ''-m'', py ''; rm -rf /''], repo_path ?s)]"
    using free_text_single_argument [of ?s "py ''; rm -rf /''" demo_os] m by blast
  moreover have "calls (final (add_remote_custom demo_os ?r)) =
          calls ?r @ [([py ''git'', py ''remote'', py ''add'', py ''up stream'', py ''$(reboot)''],
                       repo_path ?r)]"
    using free_text_single_argument [of ?r _ demo_os _ _ _ _ _ "py ''up stream''" "py ''$(reboot)''"] r
    by blast
  ultimately show ?thesis by (simp add: window_def)
qed

end
